theory Spec2Isabelle
  imports Main "HOL-Library.Word" "HOL-Library.Sublist" "HOL-Library.Multiset"
begin

unbundle bit_operations_syntax

section \<open>ImageResizeService: strings and numbers of the source language\<close>

text \<open>
  The service is a JavaScript class. Its strings are sequences of UTF-16 code units; the
  model uses \<open>string\<close>, one \<open>char\<close> per code unit, which covers every string whose
  code units are below 256 (all ASCII URLs, folder names and colour strings).
  A target dimension is a JavaScript number or \<open>null\<close>: the controllers pass
  \<open>parseInt(width)\<close> or \<open>null\<close>. The model uses \<open>int option\<close>, with \<open>None\<close> for
  \<open>null\<close>.
\<close>

type_synonym dimension = "int option"

definition digitChar :: "nat \<Rightarrow> char" where
  "digitChar d = ''0123456789abcdefghijklmnopqrstuvwxyz'' ! d"

text \<open>\<open>Number.prototype.toString(radix)\<close> on a non-negative integer, radix 2 to 36.\<close>

fun natToString :: "nat \<Rightarrow> nat \<Rightarrow> string" where
  "natToString radix n =
     (if radix < 2 \<or> n < radix then [digitChar n]
      else natToString radix (n div radix) @ [digitChar (n mod radix)])"

declare natToString.simps [simp del]

text \<open>
  A number inside a template literal: decimal digits, a leading minus sign. This is what
  JavaScript prints for an integer of fewer than 22 digits; from there on it prints an
  exponent, and \<open>NaN\<close> is not a value of \<open>dimension\<close>. The widths and heights of the
  model are the integers in that range.
\<close>

definition numberToString :: "int \<Rightarrow> string" where
  "numberToString i =
     (if i < 0 then CHR ''-'' # natToString 10 (nat (- i)) else natToString 10 (nat i))"

definition dimensionToString :: "dimension \<Rightarrow> string" where
  "dimensionToString d = (case d of None \<Rightarrow> ''null'' | Some i \<Rightarrow> numberToString i)"

text \<open>\<open>String.prototype.toLowerCase\<close> on code units below 256.\<close>

definition toLowerCaseChar :: "char \<Rightarrow> char" where
  "toLowerCaseChar c =
     (let n = (of_char c :: nat)
      in if (65 \<le> n \<and> n \<le> 90) \<or> (192 \<le> n \<and> n \<le> 222 \<and> n \<noteq> 215)
         then char_of (n + 32) else c)"

definition toLowerCase :: "string \<Rightarrow> string" where
  "toLowerCase s = map toLowerCaseChar s"

text \<open>\<open>s.lastIndexOf(c)\<close>: \<open>None\<close> stands for \<open>-1\<close>.\<close>

fun lastIndexOf :: "string \<Rightarrow> char \<Rightarrow> nat option" where
  "lastIndexOf [] c = None"
| "lastIndexOf (x # xs) c =
     (case lastIndexOf xs c of
        Some i \<Rightarrow> Some (Suc i)
      | None \<Rightarrow> if x = c then Some 0 else None)"

text \<open>\<open>s.substring(a)\<close> and \<open>s.substring(a, b)\<close> for \<open>a \<le> b\<close>.\<close>

definition substringFrom :: "string \<Rightarrow> nat \<Rightarrow> string" where
  "substringFrom s a = drop a s"

definition substring :: "string \<Rightarrow> nat \<Rightarrow> nat \<Rightarrow> string" where
  "substring s a b = take (b - a) (drop a s)"

text \<open>\<open>s.replace(c, '')\<close> with a one-character string pattern: the first occurrence goes.\<close>

fun replaceFirst :: "string \<Rightarrow> char \<Rightarrow> string" where
  "replaceFirst [] c = []"
| "replaceFirst (x # xs) c = (if x = c then xs else x # replaceFirst xs c)"

text \<open>\<open>hay.includes(pat)\<close> on strings: \<open>pat\<close> occurs as a contiguous part of \<open>hay\<close>.\<close>

fun includes_str :: "string \<Rightarrow> string \<Rightarrow> bool" where
  "includes_str [] pat = (pat = [])"
| "includes_str (c # cs) pat = (prefix pat (c # cs) \<or> includes_str cs pat)"

subsection \<open>parseInt with radix 16\<close>

definition isWhiteSpace :: "char \<Rightarrow> bool" where
  "isWhiteSpace c = ((of_char c :: nat) \<in> {9, 10, 11, 12, 13, 32, 160})"

definition hexDigitValue :: "char \<Rightarrow> nat option" where
  "hexDigitValue c =
     (let n = (of_char c :: nat)
      in if 48 \<le> n \<and> n \<le> 57 then Some (n - 48)
         else if 97 \<le> n \<and> n \<le> 102 then Some (n - 87)
         else if 65 \<le> n \<and> n \<le> 70 then Some (n - 55)
         else None)"

text \<open>The longest prefix of hexadecimal digits, as digit values.\<close>

fun hexPrefix :: "string \<Rightarrow> nat list" where
  "hexPrefix [] = []"
| "hexPrefix (c # cs) = (case hexDigitValue c of None \<Rightarrow> [] | Some d \<Rightarrow> d # hexPrefix cs)"

definition hexValue :: "nat list \<Rightarrow> nat" where
  "hexValue ds = foldl (\<lambda>acc d. 16 * acc + d) 0 ds"

text \<open>
  \<open>parseInt(s, 16)\<close> as ECMAScript defines it: leading white space is skipped, one sign
  is read, a \<open>0x\<close> or \<open>0X\<close> prefix is skipped, and the longest run of hexadecimal digits is
  the value; no digit gives \<open>NaN\<close>, which is \<open>None\<close> here. The result \<open>-0\<close> is the
  integer 0: both are falsy.
\<close>

definition parseInt16 :: "string \<Rightarrow> int option" where
  "parseInt16 s =
     (let t = dropWhile isWhiteSpace s;
          neg = (t \<noteq> [] \<and> hd t = CHR ''-'');
          u = (if t \<noteq> [] \<and> (hd t = CHR ''+'' \<or> hd t = CHR ''-'') then tl t else t);
          v = (if take 2 u = ''0x'' \<or> take 2 u = ''0X'' then drop 2 u else u);
          ds = hexPrefix v
      in if ds = [] then None
         else Some (if neg then - int (hexValue ds) else int (hexValue ds)))"

section \<open>The pure methods of ImageResizeService\<close>

subsection \<open>hashString and generateCacheKey\<close>

text \<open>
  \<open>hash = (hash * 33) ^ str.charCodeAt(i)\<close>: the product of a 32-bit integer and 33 is
  exact in a double, and \<open>^\<close> reduces it to 32 bits, so the loop is arithmetic on
  32-bit words. \<open>hash >>> 0\<close> reads the word as unsigned.
\<close>

definition hashStep :: "32 word \<Rightarrow> char \<Rightarrow> 32 word" where
  "hashStep hash c = (hash * 33) XOR of_char c"

definition hashLoop :: "string \<Rightarrow> 32 word" where
  "hashLoop str = foldl hashStep 5381 str"

definition hashString :: "string \<Rightarrow> string" where
  "hashString str = natToString 36 (unat (hashLoop str))"

definition generateCacheKey :: "string \<Rightarrow> dimension \<Rightarrow> dimension \<Rightarrow> string \<Rightarrow> string" where
  "generateCacheKey folderName width height imageUrl =
     (let urlHash = hashString imageUrl
      in ''resize_'' @ folderName @ ''_'' @ dimensionToString width @ ''x''
           @ dimensionToString height @ ''_'' @ urlHash)"

subsection \<open>isSupportedFormat, determineOutputFormat, getMimeTypeForFormat\<close>

definition supportedFormats :: "string list" where
  "supportedFormats = [''jpg'', ''jpeg'', ''png'', ''webp'', ''gif'', ''tiff'']"

definition isSupportedFormat :: "string \<Rightarrow> bool" where
  "isSupportedFormat url =
     (case lastIndexOf url CHR ''.'' of
        None \<Rightarrow> False
      | Some lastDotIndex \<Rightarrow>
          toLowerCase (substringFrom url (lastDotIndex + 1)) \<in> set supportedFormats)"

text \<open>The local constant \<open>originalFormat\<close> of \<open>determineOutputFormat\<close>.\<close>

definition originalFormat :: "string \<Rightarrow> string" where
  "originalFormat originalUrl =
     (case lastIndexOf originalUrl CHR ''.'' of
        Some lastDotIndex \<Rightarrow> toLowerCase (substringFrom originalUrl (lastDotIndex + 1))
      | None \<Rightarrow> ''jpg'')"

definition determineOutputFormat :: "string \<Rightarrow> bool \<Rightarrow> string" where
  "determineOutputFormat originalUrl hasAlpha =
     (if hasAlpha then (if originalFormat originalUrl = ''webp'' then ''webp'' else ''png'')
      else (if originalFormat originalUrl = ''webp'' then ''webp'' else ''jpeg''))"

definition getMimeTypeForFormat :: "string \<Rightarrow> string" where
  "getMimeTypeForFormat format =
     (case map_of
        [(''jpg'', ''image/jpeg''), (''jpeg'', ''image/jpeg''), (''png'', ''image/png''),
         (''webp'', ''image/webp''), (''gif'', ''image/gif''), (''tiff'', ''image/tiff'')]
        (toLowerCase format) of
        Some m \<Rightarrow> m
      | None \<Rightarrow> ''image/jpeg'')"

subsection \<open>parseBackgroundColor\<close>

record rgb =
  rgb_r :: int
  rgb_g :: int
  rgb_b :: int

text \<open>\<open>x || 255\<close> on the result of parseInt: \<open>NaN\<close> and 0 are falsy.\<close>

definition orDefault255 :: "int option \<Rightarrow> int" where
  "orDefault255 x = (case x of None \<Rightarrow> 255 | Some i \<Rightarrow> if i = 0 then 255 else i)"

definition parseBackgroundColor :: "string \<Rightarrow> rgb" where
  "parseBackgroundColor backgroundColor =
     (let hex = replaceFirst backgroundColor CHR ''#'';
          r = orDefault255 (parseInt16 (substring hex 0 2));
          g = orDefault255 (parseInt16 (substring hex 2 4));
          b = orDefault255 (parseInt16 (substring hex 4 6))
      in \<lparr> rgb_r = r, rgb_g = g, rgb_b = b \<rparr>)"


section \<open>The environment and the state of the service\<close>

text \<open>
  The service talks to three collaborators that are not part of it: the network
  (\<open>http.get\<close>), the image library sharp, and the in-memory cache node-cache. The
  first two are parameters of the model, so every theorem holds for every behaviour
  they can show; the cache is a component of the state.

  An exception is a value of type \<open>error\<close>; a method that can throw or whose promise
  can reject returns \<open>error + 'a\<close>, with \<open>Inl\<close> for the exception.
\<close>

datatype error = Error (err_message: string)

type_synonym buffer = "nat list"

record metadata =
  md_channels :: nat
  md_hasAlpha :: bool
  md_format :: string
  md_width :: nat
  md_height :: nat

text \<open>The calls that \<open>resizeImage\<close> chains on a sharp pipeline before \<open>toBuffer\<close>.\<close>

datatype sharp_op =
    Resize dimension dimension
  | Flatten rgb
  | Jpeg bool
  | Png "bool option"
  | Webp

text \<open>
  \<open>net k url\<close> is what the \<open>k\<close>-th download of the run does when it asks for \<open>url\<close>: the
  time it takes in milliseconds and how the promise of \<open>downloadImage\<close> settles
  (with the bytes, or rejected with \<open>HTTP 404\<close>, \<open>Timeout\<close>, \<open>File too large\<close>, a
  socket error). \<open>sharp_metadata\<close> and \<open>sharp_toBuffer\<close> are sharp's \<open>metadata()\<close> and
  \<open>toBuffer()\<close>; \<open>base64\<close> is \<open>Buffer.toString('base64')\<close>.
\<close>

record env =
  net :: "nat \<Rightarrow> string \<Rightarrow> nat \<times> (error + buffer)"
  sharp_metadata :: "buffer \<Rightarrow> error + metadata"
  sharp_toBuffer :: "buffer \<Rightarrow> sharp_op list \<Rightarrow> error + buffer"
  base64 :: "buffer \<Rightarrow> string"

record source_file =
  fileName :: string
  fileUrl :: string

text \<open>
  A processed file is a JavaScript object: the fields of the file (\<open>...file\<close>) and the
  fields the service adds. A field the object does not have is \<open>None\<close>, and so is
  \<open>resizedUrl: null\<close>.
\<close>

record result =
  rfile :: "source_file option"
  resizedUrl :: "string option"
  isResized :: bool
  isCached :: "bool option"
  dimensions :: "(nat \<times> nat) option"
  r_hasTransparency :: "bool option"
  outputFormat :: "string option"
  message :: "string option"
  error :: "string option"

record cache_entry =
  dataUrl :: string
  e_dimensions :: "(nat \<times> nat) option"
  e_hasTransparency :: "bool option"
  e_outputFormat :: "string option"
  timestamp :: nat

text \<open>
  The state: the cache (each key with the time its entry expires and the entry), the
  clock (\<open>Date.now()\<close>, in milliseconds), the URLs requested from the network so far and
  the delays waited with \<open>setTimeout\<close> so far.
\<close>

record world =
  store :: "string \<rightharpoonup> (nat \<times> cache_entry)"
  clock :: nat
  requests :: "string list"
  sleeps :: "nat list"

text \<open>The constructor: \<open>stdTTL: 3600\<close> seconds and \<open>this.batchSize = options.batchSize || 10\<close>.\<close>

definition stdTTL :: nat where
  "stdTTL = 3600"

record options =
  opt_batchSize :: "nat option"

definition batchSize :: "options \<Rightarrow> nat" where
  "batchSize opts = (case opt_batchSize opts of None \<Rightarrow> 10 | Some n \<Rightarrow> if n = 0 then 10 else n)"

subsection \<open>The cache\<close>

text \<open>
  Modelled from the spec: the cache store is the library node-cache, which is not part of
  the repository's sources. Section 4.1 of the spec gives its contract: an entry is
  written with a time to live of 3600 seconds, a lookup treats an expired entry as a miss
  (and drops it), \<open>keys\<close> lists the stored keys and \<open>del\<close> removes one. The periodic
  sweep only removes entries that lookups already treat as misses and is left out.
\<close>

definition cache_has :: "string \<Rightarrow> world \<Rightarrow> bool \<times> world" where
  "cache_has key s =
     (case store s key of
        None \<Rightarrow> (False, s)
      | Some (t, v) \<Rightarrow>
          if t < clock s then (False, s\<lparr>store := (store s)(key := None)\<rparr>) else (True, s))"

definition cache_get :: "string \<Rightarrow> world \<Rightarrow> cache_entry option \<times> world" where
  "cache_get key s =
     (case store s key of
        None \<Rightarrow> (None, s)
      | Some (t, v) \<Rightarrow>
          if t < clock s then (None, s\<lparr>store := (store s)(key := None)\<rparr>) else (Some v, s))"

definition cache_set :: "string \<Rightarrow> cache_entry \<Rightarrow> world \<Rightarrow> world" where
  "cache_set key v s = s\<lparr>store := (store s)(key \<mapsto> (clock s + stdTTL * 1000, v))\<rparr>"

definition cache_del_where :: "(string \<Rightarrow> bool) \<Rightarrow> world \<Rightarrow> world" where
  "cache_del_where p s = s\<lparr>store := (\<lambda>key. if p key then None else store s key)\<rparr>"

subsection \<open>Effects\<close>

text \<open>\<open>await new Promise(resolve => setTimeout(resolve, ms))\<close>.\<close>

definition sleep :: "nat \<Rightarrow> world \<Rightarrow> world" where
  "sleep ms s = s\<lparr>clock := clock s + ms, sleeps := sleeps s @ [ms]\<rparr>"

definition downloadImage :: "env \<Rightarrow> string \<Rightarrow> world \<Rightarrow> (error + buffer) \<times> world" where
  "downloadImage ev url s =
     (let (elapsed, outcome) = net ev (length (requests s)) url
      in (outcome, s\<lparr>clock := clock s + elapsed, requests := requests s @ [url]\<rparr>))"


section \<open>The asynchronous methods of ImageResizeService\<close>

subsection \<open>hasTransparency and resizeImage\<close>

text \<open>The body of \<open>hasTransparency\<close> is one \<open>try\<close>; its \<open>catch\<close> returns \<open>false\<close>.\<close>

definition hasTransparency :: "env \<Rightarrow> buffer \<Rightarrow> error + bool" where
  "hasTransparency ev imageBuffer =
     (case sharp_metadata ev imageBuffer of
        Inr md \<Rightarrow> Inr (md_channels md = 4 \<or> md_hasAlpha md \<or> md_format md = ''gif'')
      | Inl e \<Rightarrow> Inr False)"

text \<open>\<open>width || height\<close>: \<open>null\<close> and 0 are falsy.\<close>

definition truthyDimension :: "dimension \<Rightarrow> bool" where
  "truthyDimension d = (case d of None \<Rightarrow> False | Some i \<Rightarrow> i \<noteq> 0)"

text \<open>
  \<open>backgroundColor\<close> is \<open>None\<close> when the caller passes \<open>undefined\<close>; the default parameter
  value \<open>'#ffffff'\<close> then applies. The \<open>catch\<close> of \<open>resizeImage\<close> wraps every error.
\<close>

definition resizeImage ::
  "env \<Rightarrow> buffer \<Rightarrow> dimension \<Rightarrow> dimension \<Rightarrow> string \<Rightarrow> bool \<Rightarrow> string option
     \<Rightarrow> error + buffer" where
  "resizeImage ev imageBuffer width height format hasAlpha backgroundColor =
     (let bg = (case backgroundColor of None \<Rightarrow> ''#ffffff'' | Some c \<Rightarrow> c);
          pipeline =
            (if truthyDimension width \<or> truthyDimension height then [Resize width height]
             else []);
          bgColor = parseBackgroundColor bg;
          fmt = toLowerCase format;
          encoded =
            (if fmt = ''jpeg'' \<or> fmt = ''jpg'' then
               sharp_toBuffer ev imageBuffer
                 (pipeline @ (if hasAlpha then [Flatten bgColor] else []) @ [Jpeg True])
             else if fmt = ''png'' then
               sharp_toBuffer ev imageBuffer
                 (pipeline @ [Png (Some (if hasAlpha then False else True))])
             else if fmt = ''webp'' then
               sharp_toBuffer ev imageBuffer (pipeline @ [Webp])
             else if hasAlpha then sharp_toBuffer ev imageBuffer (pipeline @ [Png None])
             else sharp_toBuffer ev imageBuffer (pipeline @ [Jpeg False]))
      in case encoded of
           Inr resized \<Rightarrow> Inr resized
         | Inl e \<Rightarrow> Inl (Error (''Resize failed: '' @ err_message e)))"

subsection \<open>processSingleImage\<close>

definition unsupportedResult :: "source_file \<Rightarrow> result" where
  "unsupportedResult f =
     \<lparr> rfile = Some f, resizedUrl = None, isResized = False, isCached = None,
       dimensions = None, r_hasTransparency = None, outputFormat = None,
       message = Some ''Unsupported format'', error = None \<rparr>"

definition failedResult :: "source_file option \<Rightarrow> string \<Rightarrow> result" where
  "failedResult f msg =
     \<lparr> rfile = f, resizedUrl = None, isResized = False, isCached = None,
       dimensions = None, r_hasTransparency = None, outputFormat = None,
       message = None, error = Some msg \<rparr>"

definition resizedResult ::
  "env \<Rightarrow> source_file \<Rightarrow> buffer \<Rightarrow> metadata \<Rightarrow> bool \<Rightarrow> string \<Rightarrow> result" where
  "resizedResult ev f resizedBuffer md hasAlpha fmt =
     \<lparr> rfile = Some f,
       resizedUrl =
         Some (''data:'' @ getMimeTypeForFormat fmt @ '';base64,'' @ base64 ev resizedBuffer),
       isResized = True, isCached = Some False,
       dimensions = Some (md_width md, md_height md),
       r_hasTransparency = Some hasAlpha, outputFormat = Some fmt,
       message = None, error = None \<rparr>"

text \<open>The \<open>try\<close> block of \<open>processSingleImage\<close> after the download has settled.\<close>

definition processDownloaded ::
  "env \<Rightarrow> source_file \<Rightarrow> dimension \<Rightarrow> dimension \<Rightarrow> string option \<Rightarrow> error + buffer
     \<Rightarrow> error + result" where
  "processDownloaded ev f width height backgroundColor downloaded =
     (case downloaded of
        Inl e \<Rightarrow> Inl e
      | Inr imageBuffer \<Rightarrow>
          (case hasTransparency ev imageBuffer of
             Inl e \<Rightarrow> Inl e
           | Inr hasAlpha \<Rightarrow>
               (let fmt = determineOutputFormat (fileUrl f) hasAlpha
                in case resizeImage ev imageBuffer width height fmt hasAlpha backgroundColor of
                     Inl e \<Rightarrow> Inl e
                   | Inr resizedBuffer \<Rightarrow>
                       (case sharp_metadata ev resizedBuffer of
                          Inl e \<Rightarrow> Inl e
                        | Inr md \<Rightarrow> Inr (resizedResult ev f resizedBuffer md hasAlpha fmt)))))"

text \<open>
  The unsupported format is answered before the \<open>try\<close>; the \<open>catch\<close> turns every error of
  the \<open>try\<close> block into a result with \<open>error: error.message\<close>.
\<close>

definition processSingleImage ::
  "env \<Rightarrow> source_file \<Rightarrow> string \<Rightarrow> dimension \<Rightarrow> dimension \<Rightarrow> string option \<Rightarrow> world
     \<Rightarrow> (error + result) \<times> world" where
  "processSingleImage ev f folderName width height backgroundColor s =
     (if \<not> isSupportedFormat (fileUrl f) then (Inr (unsupportedResult f), s)
      else
        (let (downloaded, s1) = downloadImage ev (fileUrl f) s
         in case processDownloaded ev f width height backgroundColor downloaded of
              Inr res \<Rightarrow> (Inr res, s1)
            | Inl e \<Rightarrow> (Inr (failedResult (Some f) (err_message e)), s1)))"

subsection \<open>processSingleImageWithRetry\<close>

text \<open>
  The loop \<open>for (attempt = 0; attempt <= retries; attempt++)\<close>, entered at \<open>attempt\<close>. A
  fulfilled \<open>processSingleImage\<close> is returned; a rejected one is answered with the failed
  result when \<open>attempt === retries\<close>, and otherwise followed by a wait of
  \<open>Math.pow(2, attempt) * 1000\<close> milliseconds and the next round. The loop starts at
  \<open>0 \<le> retries\<close>, so the test \<open>retries \<le> attempt\<close> is the source's \<open>attempt === retries\<close>.
\<close>

function retryLoop ::
  "env \<Rightarrow> source_file \<Rightarrow> string \<Rightarrow> dimension \<Rightarrow> dimension \<Rightarrow> string option \<Rightarrow> nat \<Rightarrow> nat
     \<Rightarrow> world \<Rightarrow> (error + result) \<times> world" where
  "retryLoop ev f folderName width height backgroundColor retries attempt s =
     (case processSingleImage ev f folderName width height backgroundColor s of
        (Inr res, s1) \<Rightarrow> (Inr res, s1)
      | (Inl e, s1) \<Rightarrow>
          if retries \<le> attempt then (Inr (failedResult (Some f) (err_message e)), s1)
          else retryLoop ev f folderName width height backgroundColor retries (Suc attempt)
                 (sleep (2 ^ attempt * 1000) s1))"
  by pat_completeness auto
termination
  by (relation "measure (\<lambda>(ev, f, folderName, width, height, backgroundColor, retries, attempt, s).
        retries - attempt)") auto

declare retryLoop.simps [simp del]

definition processSingleImageWithRetry ::
  "env \<Rightarrow> source_file \<Rightarrow> string \<Rightarrow> dimension \<Rightarrow> dimension \<Rightarrow> string option \<Rightarrow> nat
     \<Rightarrow> world \<Rightarrow> (error + result) \<times> world" where
  "processSingleImageWithRetry ev f folderName width height backgroundColor retries s =
     retryLoop ev f folderName width height backgroundColor retries 0 s"


subsection \<open>processBatches\<close>

text \<open>
  \<open>batch.map(file => this.processSingleImageWithRetry(...))\<close> followed by
  \<open>Promise.allSettled\<close>. The promises of a batch run concurrently; each starts its
  download when it is created, in the order of the batch, each outcome depends on the
  item's own responses only, and \<open>allSettled\<close> returns the outcomes in the order of the
  batch. The model therefore runs the items of a batch one after the other; its clock
  then moves on by the sum of the download times of a batch, where the downloads of the
  real batch overlap.
\<close>

fun runBatch ::
  "env \<Rightarrow> source_file list \<Rightarrow> string \<Rightarrow> dimension \<Rightarrow> dimension \<Rightarrow> string option \<Rightarrow> world
     \<Rightarrow> (error + result) list \<times> world" where
  "runBatch ev [] folderName width height backgroundColor s = ([], s)"
| "runBatch ev (f # fs) folderName width height backgroundColor s =
     (let (settled, s1) =
            processSingleImageWithRetry ev f folderName width height backgroundColor 2 s;
          (rest, s2) = runBatch ev fs folderName width height backgroundColor s1
      in (settled # rest, s2))"

text \<open>
  What the loop over \<open>batchResults\<close> pushes: the value of a fulfilled promise, and for a
  rejected one a result without the file's fields, with
  \<open>error: result.reason?.message || 'Processing failed'\<close>.
\<close>

definition pushSettled :: "error + result \<Rightarrow> result" where
  "pushSettled settled =
     (case settled of
        Inr v \<Rightarrow> v
      | Inl reason \<Rightarrow>
          failedResult None
            (if err_message reason = [] then ''Processing failed'' else err_message reason))"

text \<open>\<open>files.slice(i, j)\<close> for \<open>i \<le> j\<close>.\<close>

definition slice :: "'a list \<Rightarrow> nat \<Rightarrow> nat \<Rightarrow> 'a list" where
  "slice xs i j = take (j - i) (drop i xs)"

text \<open>The loop \<open>for (let i = 0; i < files.length; i += this.batchSize)\<close>, entered at \<open>i\<close>.\<close>

function batchLoop ::
  "env \<Rightarrow> options \<Rightarrow> source_file list \<Rightarrow> string \<Rightarrow> dimension \<Rightarrow> dimension \<Rightarrow> string option
     \<Rightarrow> nat \<Rightarrow> result list \<Rightarrow> world \<Rightarrow> result list \<times> world" where
  "batchLoop ev opts files folderName width height backgroundColor i results s =
     (if i < length files then
        (let batch = slice files i (i + batchSize opts);
             (batchResults, s1) = runBatch ev batch folderName width height backgroundColor s;
             results1 = results @ map pushSettled batchResults;
             s2 = (if i + batchSize opts < length files then sleep 10 s1 else s1)
         in batchLoop ev opts files folderName width height backgroundColor
              (i + batchSize opts) results1 s2)
      else (results, s))"
  by pat_completeness auto
termination
proof (relation "measure (\<lambda>(ev, opts, files, folderName, width, height, backgroundColor,
          i, results, s). length files - i)", goal_cases)
  case 1
  show ?case by simp
next
  case (2 ev opts files folderName width height backgroundColor i results s)
  have "0 < batchSize opts"
    by (simp add: batchSize_def split: option.split)
  with 2 show ?case by simp
qed

declare batchLoop.simps [simp del]

definition processBatches ::
  "env \<Rightarrow> options \<Rightarrow> source_file list \<Rightarrow> string \<Rightarrow> dimension \<Rightarrow> dimension \<Rightarrow> string option
     \<Rightarrow> world \<Rightarrow> result list \<times> world" where
  "processBatches ev opts files folderName width height backgroundColor s =
     batchLoop ev opts files folderName width height backgroundColor 0 [] s"

subsection \<open>processFolderImages\<close>

definition cachedResult :: "source_file \<Rightarrow> cache_entry \<Rightarrow> result" where
  "cachedResult f cachedData =
     \<lparr> rfile = Some f, resizedUrl = Some (dataUrl cachedData), isResized = True,
       isCached = Some True, dimensions = e_dimensions cachedData,
       r_hasTransparency = e_hasTransparency cachedData,
       outputFormat = e_outputFormat cachedData, message = None, error = None \<rparr>"

text \<open>The entry that both callers write with \<open>this.cache.set\<close>.\<close>

definition entryOf :: "result \<Rightarrow> string \<Rightarrow> nat \<Rightarrow> cache_entry" where
  "entryOf res url now =
     \<lparr> dataUrl = url, e_dimensions = dimensions res,
       e_hasTransparency = r_hasTransparency res, e_outputFormat = outputFormat res,
       timestamp = now \<rparr>"

text \<open>
  \<open>result.isResized && result.resizedUrl\<close>: the URL must be a non-empty string; the
  value is the URL when the test succeeds.
\<close>

definition resizedWithUrl :: "result \<Rightarrow> string option" where
  "resizedWithUrl res =
     (if isResized res then
        (case resizedUrl res of None \<Rightarrow> None | Some u \<Rightarrow> if u = [] then None else Some u)
      else None)"

text \<open>
  The first loop: every file is either answered from the cache or put on \<open>toProcess\<close>.
  Reading a field of \<open>undefined\<close> raises a TypeError: that is the \<open>Inl\<close> of the case where
  \<open>get\<close> finds nothing after \<open>has\<close> has answered true. Here \<open>has\<close> and the \<open>get\<close> that
  follows it see the clock of the state they run in, so the two answers agree; the
  variant \<open>checkCacheAt\<close> below lets the clock move before every reading.
\<close>

fun checkCache ::
  "source_file list \<Rightarrow> string \<Rightarrow> dimension \<Rightarrow> dimension \<Rightarrow> bool \<Rightarrow> result list
     \<Rightarrow> source_file list \<Rightarrow> world \<Rightarrow> (error + result list \<times> source_file list) \<times> world" where
  "checkCache [] folderName width height purgeCache processedFiles toProcess s =
     (Inr (processedFiles, toProcess), s)"
| "checkCache (f # fs) folderName width height purgeCache processedFiles toProcess s =
     (let cacheKey = generateCacheKey folderName width height (fileUrl f)
      in if purgeCache then
           checkCache fs folderName width height purgeCache processedFiles (toProcess @ [f]) s
         else
           (case cache_has cacheKey s of
              (True, s1) \<Rightarrow>
                (case cache_get cacheKey s1 of
                   (Some cachedData, s2) \<Rightarrow>
                     checkCache fs folderName width height purgeCache
                       (processedFiles @ [cachedResult f cachedData]) toProcess s2
                 | (None, s2) \<Rightarrow>
                     (Inl (Error ''Cannot read properties of undefined (reading 'dataUrl')''),
                      s2))
            | (False, s1) \<Rightarrow>
                checkCache fs folderName width height purgeCache processedFiles
                  (toProcess @ [f]) s1))"

text \<open>
  The second loop: a resized result is written to the cache under the key of
  \<open>result.fileUrl\<close>, and every result is pushed. A result without \<open>fileUrl\<close> would make
  \<open>hashString\<close> read \<open>undefined.length\<close>, a TypeError.
\<close>

fun cacheResults ::
  "result list \<Rightarrow> string \<Rightarrow> dimension \<Rightarrow> dimension \<Rightarrow> result list \<Rightarrow> world
     \<Rightarrow> (error + result list) \<times> world" where
  "cacheResults [] folderName width height processedFiles s = (Inr processedFiles, s)"
| "cacheResults (res # rest) folderName width height processedFiles s =
     (case resizedWithUrl res of
        Some url \<Rightarrow>
          (case rfile res of
             None \<Rightarrow>
               (Inl (Error ''Cannot read properties of undefined (reading 'length')''), s)
           | Some f \<Rightarrow>
               (let cacheKey = generateCacheKey folderName width height (fileUrl f);
                    s1 = cache_set cacheKey (entryOf res url (clock s)) s
                in cacheResults rest folderName width height (processedFiles @ [res]) s1))
      | None \<Rightarrow> cacheResults rest folderName width height (processedFiles @ [res]) s)"

definition processFolderImages ::
  "env \<Rightarrow> options \<Rightarrow> source_file list \<Rightarrow> string \<Rightarrow> dimension \<Rightarrow> dimension \<Rightarrow> bool
     \<Rightarrow> string option \<Rightarrow> world \<Rightarrow> (error + result list) \<times> world" where
  "processFolderImages ev opts files folderName width height purgeCache backgroundColor s =
     (let bg = (case backgroundColor of None \<Rightarrow> Some ''#ffffff'' | Some c \<Rightarrow> Some c)
      in case checkCache files folderName width height purgeCache [] [] s of
           (Inl e, s1) \<Rightarrow> (Inl e, s1)
         | (Inr (processedFiles, toProcess), s1) \<Rightarrow>
             if length toProcess = 0 then (Inr processedFiles, s1)
             else
               (let (results, s2) =
                      processBatches ev opts toProcess folderName width height bg s1
                in cacheResults results folderName width height processedFiles s2))"

subsection \<open>processFolderImages with a clock that moves during the lookups\<close>

text \<open>
  node-cache reads \<open>Date.now()\<close> in every \<open>has\<close> and in every \<open>get\<close>. In the following
  variant of the first loop the clock moves before each of these readings: \<open>ticks\<close> lists
  the milliseconds that pass before the first reading, before the second, and so on (no
  time passes once the list is used up). An entry that expires between a \<open>has\<close> and its
  \<open>get\<close> makes \<open>get\<close> return \<open>undefined\<close>, and the loop raises.
\<close>

definition tickClock :: "nat \<Rightarrow> world \<Rightarrow> world" where
  "tickClock ms s = s\<lparr>clock := clock s + ms\<rparr>"

definition nextTick :: "nat list \<Rightarrow> nat" where
  "nextTick ticks = (case ticks of [] \<Rightarrow> 0 | ms # rest \<Rightarrow> ms)"

fun checkCacheAt ::
  "nat list \<Rightarrow> source_file list \<Rightarrow> string \<Rightarrow> dimension \<Rightarrow> dimension \<Rightarrow> bool \<Rightarrow> result list
     \<Rightarrow> source_file list \<Rightarrow> world \<Rightarrow> (error + result list \<times> source_file list) \<times> world" where
  "checkCacheAt ticks [] folderName width height purgeCache processedFiles toProcess s =
     (Inr (processedFiles, toProcess), s)"
| "checkCacheAt ticks (f # fs) folderName width height purgeCache processedFiles toProcess s =
     (let cacheKey = generateCacheKey folderName width height (fileUrl f)
      in if purgeCache then
           checkCacheAt ticks fs folderName width height purgeCache processedFiles
             (toProcess @ [f]) s
         else
           (case cache_has cacheKey (tickClock (nextTick ticks) s) of
              (True, s1) \<Rightarrow>
                (case cache_get cacheKey (tickClock (nextTick (tl ticks)) s1) of
                   (Some cachedData, s2) \<Rightarrow>
                     checkCacheAt (tl (tl ticks)) fs folderName width height purgeCache
                       (processedFiles @ [cachedResult f cachedData]) toProcess s2
                 | (None, s2) \<Rightarrow>
                     (Inl (Error ''Cannot read properties of undefined (reading 'dataUrl')''),
                      s2))
            | (False, s1) \<Rightarrow>
                checkCacheAt (tl ticks) fs folderName width height purgeCache processedFiles
                  (toProcess @ [f]) s1))"

definition processFolderImagesAt ::
  "nat list \<Rightarrow> env \<Rightarrow> options \<Rightarrow> source_file list \<Rightarrow> string \<Rightarrow> dimension \<Rightarrow> dimension
     \<Rightarrow> bool \<Rightarrow> string option \<Rightarrow> world \<Rightarrow> (error + result list) \<times> world" where
  "processFolderImagesAt ticks ev opts files folderName width height purgeCache backgroundColor s =
     (let bg = (case backgroundColor of None \<Rightarrow> Some ''#ffffff'' | Some c \<Rightarrow> Some c)
      in case checkCacheAt ticks files folderName width height purgeCache [] [] s of
           (Inl e, s1) \<Rightarrow> (Inl e, s1)
         | (Inr (processedFiles, toProcess), s1) \<Rightarrow>
             if length toProcess = 0 then (Inr processedFiles, s1)
             else
               (let (results, s2) =
                      processBatches ev opts toProcess folderName width height bg s1
                in cacheResults results folderName width height processedFiles s2))"

subsection \<open>processSingleImageByName\<close>



subsection \<open>clearFolderCache\<close>

text \<open>
  \<open>keys.filter(key => key.includes(`resize_${folderName}_`))\<close>, and \<open>del\<close> on each of the
  keys found.
\<close>

definition clearFolderCache :: "string \<Rightarrow> world \<Rightarrow> world" where
  "clearFolderCache folderName s =
     cache_del_where (\<lambda>key. includes_str key (''resize_'' @ folderName @ ''_'')) s"


section \<open>The wording of the specification\<close>

text \<open>
  Following the spec's words (section 4.4, output format selection), not the source: a
  candidate is derived from the extension; an image with transparency gets the
  extension's format if that format supports alpha and otherwise the default
  alpha-capable format; an opaque image gets the extension's format unless that format is
  non-alpha-capable, in which case it gets the default non-alpha format. Of the formats
  the service writes (jpeg, png, webp), png and webp carry an alpha channel.
\<close>

definition alphaCapable :: "string \<Rightarrow> bool" where
  "alphaCapable fmt = (fmt = ''png'' \<or> fmt = ''webp'')"

definition claimedOutputFormat :: "string \<Rightarrow> bool \<Rightarrow> string" where
  "claimedOutputFormat extension hasAlpha =
     (if hasAlpha then (if alphaCapable extension then extension else ''png'')
      else (if alphaCapable extension then extension else ''jpeg''))"

section \<open>Notions used to state what a call does\<close>

text \<open>
  Three shapes of a processed file. An absorbed failure has \<open>isResized: false\<close> and
  \<open>resizedUrl: null\<close>, with the error message under \<open>error\<close>. A skipped file, one whose
  extension is not supported, has \<open>isResized: false\<close> and \<open>resizedUrl: null\<close> too, but
  the note \<open>Unsupported format\<close> under \<open>message\<close> and no field \<open>error\<close>. A freshly
  resized file has \<open>isResized: true\<close>, \<open>isCached: false\<close> and a data URL.
\<close>

definition absorbed :: "result \<Rightarrow> bool" where
  "absorbed res = (\<not> isResized res \<and> resizedUrl res = None \<and> error res \<noteq> None)"

definition skipped :: "result \<Rightarrow> bool" where
  "skipped res =
     (\<not> isResized res \<and> resizedUrl res = None \<and> error res = None
      \<and> message res = Some ''Unsupported format''
      \<and> (case rfile res of
            Some f \<Rightarrow> \<not> isSupportedFormat (fileUrl f)
          | None \<Rightarrow> False))"

definition freshlyResized :: "result \<Rightarrow> bool" where
  "freshlyResized res =
     (isResized res \<and> isCached res = Some False \<and> resizedWithUrl res \<noteq> None)"

text \<open>
  An entry is live while the clock has not passed its expiry time: this is when \<open>has\<close> answers
  true and \<open>get\<close> returns the entry.
\<close>

definition live :: "world \<Rightarrow> string \<Rightarrow> bool" where
  "live s key = (case store s key of None \<Rightarrow> False | Some (t, v) \<Rightarrow> \<not> t < clock s)"

text \<open>
  A lookup of a key whose entry has expired drops the entry.
\<close>

definition dropExpired :: "world \<Rightarrow> string \<Rightarrow> world" where
  "dropExpired s key =
     (if store s key \<noteq> None \<and> \<not> live s key then s\<lparr>store := (store s)(key := None)\<rparr> else s)"

text \<open>
  The cache key of a file in a call for \<open>(folderName, width, height)\<close>.
\<close>

definition keyOf :: "string \<Rightarrow> dimension \<Rightarrow> dimension \<Rightarrow> source_file \<Rightarrow> string" where
  "keyOf folderName width height f = generateCacheKey folderName width height (fileUrl f)"

text \<open>
  The result that a call answers from the cache for a file whose entry is live. (Only
  live entries are looked at; the value for a key without an entry is immaterial.)
\<close>

definition hitOf :: "world \<Rightarrow> string \<Rightarrow> dimension \<Rightarrow> dimension \<Rightarrow> source_file \<Rightarrow> result" where
  "hitOf s folderName width height f =
     (case store s (keyOf folderName width height f) of
        Some (t, v) \<Rightarrow> cachedResult f v
      | None \<Rightarrow> failedResult (Some f) [])"

text \<open>
  The URLs that \<open>processSingleImage\<close> downloads for a list of files: those of a supported
  format, in order.
\<close>

definition supportedUrls :: "source_file list \<Rightarrow> string list" where
  "supportedUrls files = map fileUrl (filter (\<lambda>f. isSupportedFormat (fileUrl f)) files)"

text \<open>
  The results of processing a list of files: one result per file, in order, each carrying
  the fields of its file and each freshly resized, an absorbed failure or skipped.
\<close>

definition processed :: "source_file list \<Rightarrow> result list \<Rightarrow> bool" where
  "processed files results =
     (map rfile results = map Some files
      \<and> list_all (\<lambda>res. freshlyResized res \<or> absorbed res \<or> skipped res) results)"

text \<open>
  The result of one file as its own download and its own transcode give it, when the
  download is the \<open>k\<close>-th of the run: the note for an unsupported extension, the result of
  the \<open>try\<close> block, or the message of the error that the \<open>try\<close> block raised.
\<close>

definition outcomeOf ::
  "env \<Rightarrow> source_file \<Rightarrow> dimension \<Rightarrow> dimension \<Rightarrow> string option \<Rightarrow> nat \<Rightarrow> result" where
  "outcomeOf ev f width height backgroundColor k =
     (if \<not> isSupportedFormat (fileUrl f) then unsupportedResult f
      else
        (case processDownloaded ev f width height backgroundColor (snd (net ev k (fileUrl f))) of
           Inr res \<Rightarrow> res
         | Inl e \<Rightarrow> failedResult (Some f) (err_message e)))"

text \<open>
  The results of a list of files, each as its own download and transcode give it, when
  the first download is the \<open>k\<close>-th of the run. Only a file of a supported format is
  downloaded.
\<close>

fun outcomes ::
  "env \<Rightarrow> source_file list \<Rightarrow> dimension \<Rightarrow> dimension \<Rightarrow> string option \<Rightarrow> nat \<Rightarrow> result list" where
  "outcomes ev [] width height backgroundColor k = []"
| "outcomes ev (f # fs) width height backgroundColor k =
     outcomeOf ev f width height backgroundColor k
       # outcomes ev fs width height backgroundColor
           (if isSupportedFormat (fileUrl f) then Suc k else k)"

text \<open>
  The calls that \<open>resizeImage\<close> chains on the pipeline before \<open>toBuffer\<close>, as a list, and
  the test whether a call is \<open>flatten\<close>.
\<close>

definition pipelineOf ::
  "dimension \<Rightarrow> dimension \<Rightarrow> string \<Rightarrow> bool \<Rightarrow> string option \<Rightarrow> sharp_op list" where
  "pipelineOf width height format hasAlpha backgroundColor =
     (let bg = (case backgroundColor of None \<Rightarrow> ''#ffffff'' | Some c \<Rightarrow> c);
          pipeline =
            (if truthyDimension width \<or> truthyDimension height then [Resize width height]
             else []);
          bgColor = parseBackgroundColor bg;
          fmt = toLowerCase format
      in if fmt = ''jpeg'' \<or> fmt = ''jpg'' then
           pipeline @ (if hasAlpha then [Flatten bgColor] else []) @ [Jpeg True]
         else if fmt = ''png'' then pipeline @ [Png (Some (if hasAlpha then False else True))]
         else if fmt = ''webp'' then pipeline @ [Webp]
         else if hasAlpha then pipeline @ [Png None]
         else pipeline @ [Jpeg False])"

definition isFlatten :: "sharp_op \<Rightarrow> bool" where
  "isFlatten step = (case step of Flatten c \<Rightarrow> True | _ \<Rightarrow> False)"

text \<open>
  None of the entries under \<open>keys\<close> expires within the next \<open>ms\<close> milliseconds: each has
  expired already or lives on past them.
\<close>

definition noExpiryWithin :: "world \<Rightarrow> nat \<Rightarrow> string list \<Rightarrow> bool" where
  "noExpiryWithin s ms keys =
     list_all (\<lambda>key. case store s key of
                       None \<Rightarrow> True
                     | Some (t, v) \<Rightarrow> t < clock s \<or> clock s + ms \<le> t) keys"

text \<open>
  What the second loop of \<open>processFolderImages\<close> does to the cache for one result, at time
  \<open>now\<close>.
\<close>

definition cacheWrite ::
  "string \<Rightarrow> dimension \<Rightarrow> dimension \<Rightarrow> nat \<Rightarrow> (string \<rightharpoonup> nat \<times> cache_entry) \<Rightarrow> result
     \<Rightarrow> (string \<rightharpoonup> nat \<times> cache_entry)" where
  "cacheWrite folderName width height now m res =
     (case resizedWithUrl res of
        None \<Rightarrow> m
      | Some url \<Rightarrow>
          (case rfile res of
             None \<Rightarrow> m
           | Some f \<Rightarrow>
               m(keyOf folderName width height f
                   \<mapsto> (now + stdTTL * 1000, entryOf res url now))))"


text \<open>
  The files of a call that are answered from the cache, as results.
\<close>

definition cacheHits ::
  "world \<Rightarrow> string \<Rightarrow> dimension \<Rightarrow> dimension \<Rightarrow> bool \<Rightarrow> source_file list \<Rightarrow> result list" where
  "cacheHits s folderName width height purgeCache files =
     (if purgeCache then []
      else map (hitOf s folderName width height)
             (filter (\<lambda>f. live s (keyOf folderName width height f)) files))"

text \<open>
  The files of a call that are processed: all of them when the cache is purged.
\<close>

definition cacheMisses ::
  "world \<Rightarrow> string \<Rightarrow> dimension \<Rightarrow> dimension \<Rightarrow> bool \<Rightarrow> source_file list \<Rightarrow> source_file list" where
  "cacheMisses s folderName width height purgeCache files =
     (if purgeCache then files
      else filter (\<lambda>f. \<not> live s (keyOf folderName width height f)) files)"

text \<open>
  The state after the lookups of a call: lookups drop the expired entries they meet.
\<close>

definition afterLookup ::
  "world \<Rightarrow> string \<Rightarrow> dimension \<Rightarrow> dimension \<Rightarrow> bool \<Rightarrow> source_file list \<Rightarrow> world" where
  "afterLookup s folderName width height purgeCache files =
     (if purgeCache then s
      else foldl dropExpired s (map (keyOf folderName width height) files))"

text \<open>
  The results that a folder call owes in state \<open>s\<close>: the files with a live entry, answered
  from the cache, then every other file with the outcome of its own download and
  transcode. The downloads of the call follow the \<open>length (requests s)\<close> earlier ones, and
  \<open>'#ffffff'\<close> stands in for a background colour that is not given.
\<close>

definition folderResults ::
  "env \<Rightarrow> world \<Rightarrow> source_file list \<Rightarrow> string \<Rightarrow> dimension \<Rightarrow> dimension \<Rightarrow> bool
     \<Rightarrow> string option \<Rightarrow> result list" where
  "folderResults ev s files folderName width height purgeCache backgroundColor =
     cacheHits s folderName width height purgeCache files
       @ outcomes ev (cacheMisses s folderName width height purgeCache files) width height
           (case backgroundColor of None \<Rightarrow> Some ''#ffffff'' | Some c \<Rightarrow> Some c)
           (length (requests s))"


section \<open>Example environments, files and states\<close>

text \<open>
  An environment in which nothing works: every download times out after 15 seconds and
  sharp rejects every buffer.
\<close>

definition offlineEnv :: env where
  "offlineEnv =
     \<lparr> net = (\<lambda>k url. (15000, Inl (Error ''Timeout''))),
       sharp_metadata = (\<lambda>buf. Inl (Error ''Input buffer contains unsupported image format'')),
       sharp_toBuffer = (\<lambda>buf ops. Inl (Error ''Input buffer contains unsupported image format'')),
       base64 = (\<lambda>buf. []) \<rparr>"

text \<open>
  An environment in which the download of \<open>https://x/b.jpg\<close> times out after 15 seconds and
  every other download takes 20 milliseconds and delivers three bytes; every image is
  opaque and is resized to 100 by 80.
\<close>

definition flakyEnv :: env where
  "flakyEnv =
     \<lparr> net = (\<lambda>k url. if url = ''https://x/b.jpg'' then (15000, Inl (Error ''Timeout''))
                        else (20, Inr [1, 2, 3])),
       sharp_metadata =
         (\<lambda>buf. Inr \<lparr> md_channels = 3, md_hasAlpha = False, md_format = ''png'',
                       md_width = 100, md_height = 80 \<rparr>),
       sharp_toBuffer = (\<lambda>buf ops. Inr [9]),
       base64 = (\<lambda>buf. ''CQ=='') \<rparr>"

text \<open>
  An environment in which every download delivers three bytes that sharp cannot read:
  \<open>metadata\<close> and \<open>toBuffer\<close> both reject them.
\<close>

definition corruptEnv :: env where
  "corruptEnv =
     \<lparr> net = (\<lambda>k url. (20, Inr [1, 2, 3])),
       sharp_metadata = (\<lambda>buf. Inl (Error ''Input buffer contains unsupported image format'')),
       sharp_toBuffer = (\<lambda>buf ops. Inl (Error ''Input buffer contains unsupported image format'')),
       base64 = (\<lambda>buf. []) \<rparr>"

text \<open>
  The options of \<open>new ImageResizeService()\<close>.
\<close>

definition defaultOptions :: options where
  "defaultOptions = \<lparr> opt_batchSize = None \<rparr>"

text \<open>The state of a service that has just been constructed.\<close>

definition freshWorld :: world where
  "freshWorld = \<lparr> store = Map.empty, clock = 0, requests = [], sleeps = [] \<rparr>"

text \<open>
  The two files of the spec's scenario (section 8), in folder \<open>demo\<close>.
\<close>

definition fileA :: source_file where
  "fileA = \<lparr> fileName = ''a.png'', fileUrl = ''https://x/a.png'' \<rparr>"

definition fileB :: source_file where
  "fileB = \<lparr> fileName = ''b.jpg'', fileUrl = ''https://x/b.jpg'' \<rparr>"

text \<open>A file of the folder that is not an image.\<close>

definition fileC :: source_file where
  "fileC = \<lparr> fileName = ''notes.txt'', fileUrl = ''https://x/notes.txt'' \<rparr>"

text \<open>The data URL of a resized image in the environment \<open>flakyEnv\<close>.\<close>

definition dataUrlA :: string where
  "dataUrlA = ''data:image/jpeg;base64,CQ==''"

text \<open>
  The result of resizing \<open>a.png\<close> in the environment \<open>flakyEnv\<close>.
\<close>

definition resizedA :: result where
  "resizedA =
     \<lparr> rfile = Some fileA, resizedUrl = Some dataUrlA,
       isResized = True, isCached = Some False, dimensions = Some (100, 80),
       r_hasTransparency = Some False, outputFormat = Some ''jpeg'',
       message = None, error = None \<rparr>"

text \<open>An entry as a resize of an opaque image at time 0 leaves it in the cache.\<close>

definition someEntry :: cache_entry where
  "someEntry =
     \<lparr> dataUrl = dataUrlA, e_dimensions = Some (100, 80),
       e_hasTransparency = Some False, e_outputFormat = Some ''jpeg'', timestamp = 0 \<rparr>"

subsection \<open>The states of the scenario\<close>

text \<open>The state after the first folder call of the scenario, on a fresh service.\<close>

definition afterFolder :: world where
  "afterFolder =
     \<lparr> store = [keyOf ''demo'' (Some 100) None fileA
                 \<mapsto> (3615020, entryOf resizedA dataUrlA 15020)],
       clock = 15020, requests = [''https://x/a.png'', ''https://x/b.jpg''], sleeps = [] \<rparr>"

text \<open>One hour after the first call, to the millisecond: the entry of \<open>a.png\<close> is still live.\<close>

definition oneHourLater :: world where
  "oneHourLater = afterFolder\<lparr>clock := 3615020\<rparr>"

text \<open>One millisecond later it has expired.\<close>

definition expired :: world where
  "expired = afterFolder\<lparr>clock := 3615021\<rparr>"





section \<open>Cache keys\<close>

lemma hashLoop_a: "hashLoop ''https://x/a.png'' = 1000575573"
  by (simp add: hashLoop_def hashStep_def)

text \<open>
  Claim C3. \<open>generateCacheKey\<close> is a pure, deterministic function of
  \<open>(folderName, width, height, imageUrl)\<close>: the key is one fixed expression in these
  four values, the text \<open>resize_\<close>, the folder name, the two dimensions and the base-36
  rendering of a 32-bit hash that is folded over the code units of the URL from the
  constant 5381. Neither the cache, the clock nor any counter occurs in it, so two
  evaluations on the same tuple give the same key; for the first file of the spec's
  scenario at width 100 it is \<open>resize_demo_100xnull_gjpt1x\<close>, in every run.
\<close>

theorem generateCacheKey_deterministic:
  "generateCacheKey folderName width height imageUrl =
     ''resize_'' @ folderName @ ''_'' @ dimensionToString width @ ''x''
       @ dimensionToString height @ ''_''
       @ natToString 36
           (unat (foldl (\<lambda>hash c. (hash * 33) XOR of_char c) (5381 :: 32 word) imageUrl))
   \<and> generateCacheKey ''demo'' (Some 100) None ''https://x/a.png''
       = ''resize_demo_100xnull_gjpt1x''"
proof
  show "generateCacheKey folderName width height imageUrl =
     ''resize_'' @ folderName @ ''_'' @ dimensionToString width @ ''x''
       @ dimensionToString height @ ''_''
       @ natToString 36
           (unat (foldl (\<lambda>hash c. (hash * 33) XOR of_char c) (5381 :: 32 word) imageUrl))"
    by (simp add: generateCacheKey_def hashString_def hashLoop_def hashStep_def [abs_def])
  show "generateCacheKey ''demo'' (Some 100) None ''https://x/a.png''
          = ''resize_demo_100xnull_gjpt1x''"
    by (simp add: generateCacheKey_def hashString_def hashLoop_a dimensionToString_def
        numberToString_def natToString.simps digitChar_def)
qed

lemma hashLoop_a2: "hashLoop ''https://x/a2.png'' = 2961187495"
  by (simp add: hashLoop_def hashStep_def)

lemma hashLoop_cp: "hashLoop ''https://x/cp.png'' = 2961187495"
  by (simp add: hashLoop_def hashStep_def)

text \<open>
  Claim C4 says that distinct tuples never share a key. The code breaks it: the two
  distinct URLs \<open>https://x/a2.png\<close> and \<open>https://x/cp.png\<close> have the same 32-bit hash
  (2961187495, \<open>1cz0iw7\<close> in base 36), so in one folder and at one size they get the
  same cache key.
\<close>

theorem generateCacheKey_collision:
  "''https://x/a2.png'' \<noteq> ''https://x/cp.png'' \<and>
   generateCacheKey ''demo'' (Some 100) None ''https://x/a2.png''
     = generateCacheKey ''demo'' (Some 100) None ''https://x/cp.png''"
  by (simp add: generateCacheKey_def hashString_def hashLoop_a2 hashLoop_cp)

section \<open>Output format and background colour\<close>

text \<open>
  Claim C6 says that an opaque image keeps the format of its extension unless that
  format cannot carry alpha. The code breaks it on an opaque image with a \<open>png\<close>
  extension: png can carry alpha, so the claim keeps \<open>png\<close>, and
  \<open>determineOutputFormat\<close> returns \<open>jpeg\<close>. (The two API handlers of the repository
  have a \<open>determineOutputFormat\<close> of their own, which returns \<open>png\<close> here, and the
  \<open>png\<close> case of \<open>resizeImage\<close> sets \<open>palette\<close> for an opaque image, a case this
  answer makes unreachable.)
\<close>

theorem determineOutputFormat_opaque_png_is_jpeg:
  "determineOutputFormat ''https://x/a.png'' False = ''jpeg'' \<and>
   claimedOutputFormat (originalFormat ''https://x/a.png'') False = ''png'' \<and>
   determineOutputFormat ''https://x/a.png'' False
     \<noteq> claimedOutputFormat (originalFormat ''https://x/a.png'') False"
  by (simp add: determineOutputFormat_def originalFormat_def claimedOutputFormat_def
      alphaCapable_def toLowerCase_def toLowerCaseChar_def substringFrom_def)

text \<open>
  The function as a whole. For an image with transparency it returns what the spec says:
  the extension's format if it supports alpha (png, webp) and otherwise the default
  alpha-capable format png. For an opaque image it returns \<open>webp\<close> when the extension is
  webp and \<open>jpeg\<close> for every other extension, png included.
\<close>

lemma determineOutputFormat_by_cases:
  "determineOutputFormat url True = claimedOutputFormat (originalFormat url) True \<and>
   determineOutputFormat url False
     = (if originalFormat url = ''webp'' then ''webp'' else ''jpeg'')"
  by (auto simp add: determineOutputFormat_def claimedOutputFormat_def alphaCapable_def)

text \<open>
  Claim C10. No channel that \<open>parseBackgroundColor\<close> returns is 0, and a channel whose
  two digits parse to the number 0 comes back as 255: black is flattened as white.
\<close>

theorem parseBackgroundColor_never_zero:
  "rgb_r (parseBackgroundColor c) \<noteq> 0 \<and> rgb_g (parseBackgroundColor c) \<noteq> 0
   \<and> rgb_b (parseBackgroundColor c) \<noteq> 0
   \<and> (parseInt16 (substring (replaceFirst c CHR ''#'') 0 2) = Some 0
        \<longrightarrow> rgb_r (parseBackgroundColor c) = 255)
   \<and> (parseInt16 (substring (replaceFirst c CHR ''#'') 2 4) = Some 0
        \<longrightarrow> rgb_g (parseBackgroundColor c) = 255)
   \<and> (parseInt16 (substring (replaceFirst c CHR ''#'') 4 6) = Some 0
        \<longrightarrow> rgb_b (parseBackgroundColor c) = 255)"
  by (simp add: parseBackgroundColor_def orDefault255_def Let_def split: option.split)

lemma parseInt16_00: "parseInt16 ''00'' = Some 0"
  by (simp add: parseInt16_def isWhiteSpace_def hexDigitValue_def hexValue_def)

text \<open>Black: each channel of \<open>#000000\<close> parses to 0 and comes back as 255.\<close>

theorem parseBackgroundColor_black_witness:
  "parseInt16 (substring (replaceFirst ''#000000'' CHR ''#'') 0 2) = Some 0
   \<and> parseInt16 (substring (replaceFirst ''#000000'' CHR ''#'') 2 4) = Some 0
   \<and> parseInt16 (substring (replaceFirst ''#000000'' CHR ''#'') 4 6) = Some 0
   \<and> parseBackgroundColor ''#000000'' = \<lparr> rgb_r = 255, rgb_g = 255, rgb_b = 255 \<rparr>"
  using parseBackgroundColor_never_zero [of "''#000000''"]
  by (simp add: substring_def parseInt16_00)

section \<open>One image: the pipeline and the retry loop\<close>

lemma processDownloaded_shape:
  "processDownloaded ev f width height bg downloaded = Inr res
     \<Longrightarrow> rfile res = Some f \<and> freshlyResized res"
  by (auto simp add: processDownloaded_def resizedResult_def freshlyResized_def resizedWithUrl_def
      Let_def split: sum.splits)

lemma processSingleImage_unsupported:
  "\<not> isSupportedFormat (fileUrl f)
     \<Longrightarrow> processSingleImage ev f folderName width height bg s = (Inr (unsupportedResult f), s)"
  by (simp add: processSingleImage_def)

lemma processSingleImage_supported:
  "isSupportedFormat (fileUrl f)
     \<Longrightarrow> processSingleImage ev f folderName width height bg s =
         (Inr (case processDownloaded ev f width height bg
                      (snd (net ev (length (requests s)) (fileUrl f))) of
                 Inr res \<Rightarrow> res
               | Inl e \<Rightarrow> failedResult (Some f) (err_message e)),
          s\<lparr>clock := clock s + fst (net ev (length (requests s)) (fileUrl f)),
            requests := requests s @ [fileUrl f]\<rparr>)"
  by (simp add: processSingleImage_def downloadImage_def Let_def split: prod.split sum.split)

text \<open>\<open>processSingleImage\<close> catches every error itself: its promise is always fulfilled.\<close>

lemma processSingleImage_fulfilled:
  "\<exists>res s1. processSingleImage ev f folderName width height bg s = (Inr res, s1)"
  by (cases "isSupportedFormat (fileUrl f)")
     (simp_all add: processSingleImage_supported processSingleImage_unsupported)

text \<open>So the \<open>catch\<close> of the retry loop is never entered, whatever \<open>retries\<close> is.\<close>

lemma retryLoop_is_processSingleImage:
  "retryLoop ev f folderName width height bg retries attempt s
     = processSingleImage ev f folderName width height bg s"
  using processSingleImage_fulfilled [of ev f folderName width height bg s]
  by (subst retryLoop.simps) auto

lemma processSingleImageWithRetry_is_processSingleImage:
  "processSingleImageWithRetry ev f folderName width height bg retries s
     = processSingleImage ev f folderName width height bg s"
  by (simp add: processSingleImageWithRetry_def retryLoop_is_processSingleImage)

lemma supported_a_png: "isSupportedFormat ''https://x/a.png''"
  by (simp add: isSupportedFormat_def toLowerCase_def toLowerCaseChar_def substringFrom_def
      supportedFormats_def)

text \<open>
  Claim C5 says that an item whose download fails every time is tried three times, with
  waits of one and two seconds in between. The code tries it once: with every download
  timing out, \<open>processSingleImageWithRetry\<close> with \<open>retries = 2\<close> returns the failed result
  after one request and no wait.
\<close>

theorem processSingleImageWithRetry_single_attempt:
  "processSingleImageWithRetry offlineEnv
       \<lparr> fileName = ''a.png'', fileUrl = ''https://x/a.png'' \<rparr>
       ''demo'' (Some 100) None None 2 freshWorld
     = (Inr (failedResult (Some \<lparr> fileName = ''a.png'', fileUrl = ''https://x/a.png'' \<rparr>)
               ''Timeout''),
        \<lparr> store = Map.empty, clock = 15000, requests = [''https://x/a.png''],
          sleeps = [] \<rparr>)"
  by (simp add: processSingleImageWithRetry_is_processSingleImage processSingleImage_supported
      supported_a_png offlineEnv_def freshWorld_def processDownloaded_def)

section \<open>Transparency\<close>

text \<open>\<open>resizeImage\<close> hands sharp the calls of \<open>pipelineOf\<close> and wraps its error.\<close>

lemma resizeImage_pipeline:
  "resizeImage ev imageBuffer width height format hasAlpha bg =
     (case sharp_toBuffer ev imageBuffer (pipelineOf width height format hasAlpha bg) of
        Inr resized \<Rightarrow> Inr resized
      | Inl e \<Rightarrow> Inl (Error (''Resize failed: '' @ err_message e)))"
  by (simp add: resizeImage_def pipelineOf_def Let_def)

text \<open>\<open>flatten\<close> is chained for an image with transparency only.\<close>

lemma pipelineOf_opaque: "\<not> list_ex isFlatten (pipelineOf width height format False bg)"
  by (simp add: pipelineOf_def isFlatten_def Let_def)

lemma processDownloaded_unreadable:
  "sharp_metadata ev imageBuffer = Inl e
     \<Longrightarrow> processDownloaded ev f width height bg (Inr imageBuffer) =
         (case sharp_toBuffer ev imageBuffer
                 (pipelineOf width height (determineOutputFormat (fileUrl f) False) False bg) of
            Inl e2 \<Rightarrow> Inl (Error (''Resize failed: '' @ err_message e2))
          | Inr resized \<Rightarrow>
              (case sharp_metadata ev resized of
                 Inl e3 \<Rightarrow> Inl e3
               | Inr md \<Rightarrow>
                   Inr (resizedResult ev f resized md False
                          (determineOutputFormat (fileUrl f) False))))"
  by (simp add: processDownloaded_def hasTransparency_def resizeImage_pipeline Let_def
      split: sum.split)

text \<open>
  Claim C9, amended. \<open>hasTransparency\<close> never raises: it always returns a boolean, and
  for every buffer whose metadata cannot be read it returns \<open>false\<close>, so the image is
  treated as opaque. Such an image is not flattened: the calls handed to sharp for an
  opaque image contain no \<open>flatten\<close>. Its item does not raise either. When sharp cannot
  encode the buffer, the item comes back with \<open>isResized: false\<close> and the error
  \<open>Resize failed: ...\<close>; when sharp can, the item is resized in the format of an opaque
  image, with \<open>hasTransparency: false\<close> (or comes back with the error of reading the
  size of the resized image).
\<close>

theorem hasTransparency_never_raises:
  "(\<exists>answer. hasTransparency ev imageBuffer = Inr answer)
   \<and> (\<forall>e. sharp_metadata ev imageBuffer = Inl e \<longrightarrow>
         hasTransparency ev imageBuffer = Inr False
         \<and> \<not> list_ex isFlatten
               (pipelineOf width height (determineOutputFormat (fileUrl f) False) False bg)
         \<and> (isSupportedFormat (fileUrl f)
              \<and> snd (net ev (length (requests s)) (fileUrl f)) = Inr imageBuffer \<longrightarrow>
            fst (processSingleImage ev f folderName width height bg s) =
              Inr (case sharp_toBuffer ev imageBuffer
                          (pipelineOf width height (determineOutputFormat (fileUrl f) False)
                             False bg) of
                     Inl e2 \<Rightarrow> failedResult (Some f) (''Resize failed: '' @ err_message e2)
                   | Inr resized \<Rightarrow>
                       (case sharp_metadata ev resized of
                          Inl e3 \<Rightarrow> failedResult (Some f) (err_message e3)
                        | Inr md \<Rightarrow>
                            resizedResult ev f resized md False
                              (determineOutputFormat (fileUrl f) False)))))"
proof (intro conjI allI impI)
  show "\<exists>answer. hasTransparency ev imageBuffer = Inr answer"
    by (auto simp add: hasTransparency_def split: sum.split)
next
  fix e assume "sharp_metadata ev imageBuffer = Inl e"
  then show "hasTransparency ev imageBuffer = Inr False"
    by (simp add: hasTransparency_def)
next
  show "\<not> list_ex isFlatten
          (pipelineOf width height (determineOutputFormat (fileUrl f) False) False bg)"
    by (rule pipelineOf_opaque)
next
  fix e
  assume unreadable: "sharp_metadata ev imageBuffer = Inl e"
    and item: "isSupportedFormat (fileUrl f)
               \<and> snd (net ev (length (requests s)) (fileUrl f)) = Inr imageBuffer"
  show "fst (processSingleImage ev f folderName width height bg s) =
          Inr (case sharp_toBuffer ev imageBuffer
                      (pipelineOf width height (determineOutputFormat (fileUrl f) False)
                         False bg) of
                 Inl e2 \<Rightarrow> failedResult (Some f) (''Resize failed: '' @ err_message e2)
               | Inr resized \<Rightarrow>
                   (case sharp_metadata ev resized of
                      Inl e3 \<Rightarrow> failedResult (Some f) (err_message e3)
                    | Inr md \<Rightarrow>
                        resizedResult ev f resized md False
                          (determineOutputFormat (fileUrl f) False)))"
    using item
    by (simp add: processSingleImage_supported processDownloaded_unreadable [OF unreadable]
        split: sum.split)
qed

lemma supported_fileB: "isSupportedFormat (fileUrl fileB)"
  by (simp add: fileB_def isSupportedFormat_def toLowerCase_def toLowerCaseChar_def
      substringFrom_def supportedFormats_def)

text \<open>
  In the environment \<open>corruptEnv\<close> the bytes of \<open>b.jpg\<close> cannot be read: they count as
  opaque, and the item comes back with the error of the encoder.
\<close>

theorem hasTransparency_corrupt_witness:
  "sharp_metadata corruptEnv [1, 2, 3]
     = Inl (Error ''Input buffer contains unsupported image format'')
   \<and> isSupportedFormat (fileUrl fileB)
   \<and> snd (net corruptEnv (length (requests freshWorld)) (fileUrl fileB)) = Inr [1, 2, 3]
   \<and> hasTransparency corruptEnv [1, 2, 3] = Inr False
   \<and> fst (processSingleImage corruptEnv fileB ''demo'' (Some 100) None None freshWorld)
       = Inr (failedResult (Some fileB)
                ''Resize failed: Input buffer contains unsupported image format'')"
  using hasTransparency_never_raises
    [of corruptEnv "[1, 2, 3]" "Some 100" None fileB None freshWorld "''demo''"]
    supported_fileB
  by (simp add: corruptEnv_def)

text \<open>
  Claim C9, as the spec words it, fails on a corrupt image: the bytes of \<open>a.png\<close> cannot
  be read, \<open>hasTransparency\<close> returns \<open>false\<close>, and the result is not a flattened image.
  No \<open>flatten\<close> is among the calls handed to sharp, and the item is not resized at all:
  it comes back with \<open>isResized: false\<close> and the error of the encoder.
\<close>

theorem hasTransparency_corrupt_counterexample:
  "sharp_metadata corruptEnv [1, 2, 3]
     = Inl (Error ''Input buffer contains unsupported image format'')
   \<and> hasTransparency corruptEnv [1, 2, 3] = Inr False
   \<and> snd (net corruptEnv 0 (fileUrl fileA)) = Inr [1, 2, 3]
   \<and> pipelineOf (Some 100) None (determineOutputFormat (fileUrl fileA) False) False None
       = [Resize (Some 100) None, Jpeg True]
   \<and> \<not> list_ex isFlatten
         (pipelineOf (Some 100) None (determineOutputFormat (fileUrl fileA) False) False None)
   \<and> fst (processSingleImage corruptEnv fileA ''demo'' (Some 100) None None freshWorld)
       = Inr (failedResult (Some fileA)
                ''Resize failed: Input buffer contains unsupported image format'')
   \<and> \<not> isResized (failedResult (Some fileA)
                      ''Resize failed: Input buffer contains unsupported image format'')"
  by (simp add: corruptEnv_def hasTransparency_def processSingleImage_supported supported_a_png
      fileA_def freshWorld_def processDownloaded_def resizeImage_def pipelineOf_def
      determineOutputFormat_def originalFormat_def toLowerCase_def toLowerCaseChar_def
      substringFrom_def truthyDimension_def isFlatten_def failedResult_def)


section \<open>Clearing the cache of a folder\<close>

text \<open>The half of the claim that holds: the keys of the folder itself are deleted.\<close>

lemma clearFolderCache_deletes_own_keys:
  "store (clearFolderCache folderName s) (generateCacheKey folderName width height imageUrl) = None"
proof -
  have "prefix (''resize_'' @ folderName @ ''_'')
          (generateCacheKey folderName width height imageUrl)"
    by (simp add: generateCacheKey_def)
  moreover have "prefix pat key \<Longrightarrow> includes_str key pat" for key pat
    by (cases key) simp_all
  ultimately show ?thesis
    by (simp add: clearFolderCache_def cache_del_where_def)
qed

lemma key_a_b:
  "generateCacheKey ''a_b'' (Some 100) None ''https://x/a2.png'' = ''resize_a_b_100xnull_1cz0iw7''"
  by (simp add: generateCacheKey_def hashString_def hashLoop_a2 dimensionToString_def
      numberToString_def natToString.simps digitChar_def)

text \<open>
  Claim C8 says that \<open>clearFolderCache\<close> leaves the entries of every other folder alone.
  The code breaks it: the key of an entry of folder \<open>a_b\<close> contains the text
  \<open>resize_a_\<close>, so clearing folder \<open>a\<close> deletes it.
\<close>

theorem clearFolderCache_deletes_other_folder:
  "store (cache_set (generateCacheKey ''a_b'' (Some 100) None ''https://x/a2.png'') someEntry
            freshWorld)
         (generateCacheKey ''a_b'' (Some 100) None ''https://x/a2.png'')
     = Some (3600000, someEntry)
   \<and> store (clearFolderCache ''a''
              (cache_set (generateCacheKey ''a_b'' (Some 100) None ''https://x/a2.png'')
                 someEntry freshWorld))
           (generateCacheKey ''a_b'' (Some 100) None ''https://x/a2.png'')
       = None"
  by (simp add: key_a_b clearFolderCache_def cache_del_where_def cache_set_def freshWorld_def
      stdTTL_def)


section \<open>Cache lookups\<close>

lemma cache_has_eq: "cache_has key s = (live s key, dropExpired s key)"
  by (auto simp add: cache_has_def live_def dropExpired_def split: option.split)

lemma cache_get_eq:
  "cache_get key s =
     (case store s key of None \<Rightarrow> None | Some (t, v) \<Rightarrow> if live s key then Some v else None,
      dropExpired s key)"
  by (auto simp add: cache_get_def live_def dropExpired_def split: option.split)

lemma dropExpired_live [simp]: "live s key \<Longrightarrow> dropExpired s key = s"
  by (simp add: dropExpired_def)

lemma live_dropExpired [simp]: "live (dropExpired s key) k = live s k"
  by (auto simp add: dropExpired_def live_def split: option.split)

lemma dropExpired_fields [simp]:
  "clock (dropExpired s key) = clock s"
  "requests (dropExpired s key) = requests s"
  "sleeps (dropExpired s key) = sleeps s"
  by (simp_all add: dropExpired_def)

lemma store_dropExpired: "live s k \<Longrightarrow> store (dropExpired s key) k = store s k"
  by (auto simp add: dropExpired_def)

lemma store_dropExpired_cases:
  "store (dropExpired s key) k = store s k \<or> (store (dropExpired s key) k = None \<and> \<not> live s k)"
  by (auto simp add: dropExpired_def)

lemma live_foldl_dropExpired [simp]: "live (foldl dropExpired s keys) k = live s k"
  by (induction keys arbitrary: s) simp_all

lemma foldl_dropExpired_fields [simp]:
  "clock (foldl dropExpired s keys) = clock s"
  "requests (foldl dropExpired s keys) = requests s"
  "sleeps (foldl dropExpired s keys) = sleeps s"
  by (induction keys arbitrary: s) simp_all

lemma store_foldl_dropExpired:
  "live s k \<Longrightarrow> store (foldl dropExpired s keys) k = store s k"
  by (induction keys arbitrary: s) (simp_all add: store_dropExpired)

lemma hitOf_dropExpired:
  "live s (keyOf folderName width height f)
     \<Longrightarrow> hitOf (dropExpired s key) folderName width height f = hitOf s folderName width height f"
  by (simp add: hitOf_def store_dropExpired)

lemma checkCache_purge:
  "checkCache files folderName width height True acc todo s = (Inr (acc, todo @ files), s)"
  by (induction files arbitrary: todo) simp_all

lemma checkCache_lookup:
  "checkCache files folderName width height False acc todo s =
     (Inr (acc @ map (hitOf s folderName width height)
                   (filter (\<lambda>f. live s (keyOf folderName width height f)) files),
           todo @ filter (\<lambda>f. \<not> live s (keyOf folderName width height f)) files),
      foldl dropExpired s (map (keyOf folderName width height) files))"
proof (induction files arbitrary: acc todo s)
  case Nil
  show ?case by simp
next
  case (Cons f fs)
  let ?k = "keyOf folderName width height f"
  show ?case
  proof (cases "live s ?k")
    case True
    then obtain t v where tv: "store s ?k = Some (t, v)"
      by (auto simp add: live_def split: option.splits)
    with True show ?thesis
      by (simp add: Cons.IH cache_has_eq cache_get_eq hitOf_def keyOf_def [symmetric] Let_def)
  next
    case False
    have eq: "map (hitOf (dropExpired s ?k) folderName width height)
            (filter (\<lambda>f. live s (keyOf folderName width height f)) fs)
          = map (hitOf s folderName width height)
            (filter (\<lambda>f. live s (keyOf folderName width height f)) fs)"
      by (rule map_cong) (simp_all add: hitOf_dropExpired)
    from False show ?thesis
      by (simp add: Cons.IH cache_has_eq keyOf_def [symmetric] Let_def eq)
  qed
qed


section \<open>Batches\<close>

lemma processed_Nil [simp]: "processed [] []"
  by (simp add: processed_def)


lemma processed_length: "processed fs rs \<Longrightarrow> length rs = length fs"
  by (metis length_map processed_def)

lemma supportedUrls_simps [simp]:
  "supportedUrls [] = []"
  "supportedUrls (f # fs) =
     (if isSupportedFormat (fileUrl f) then fileUrl f # supportedUrls fs else supportedUrls fs)"
  "supportedUrls (fs @ gs) = supportedUrls fs @ supportedUrls gs"
  by (simp_all add: supportedUrls_def)


lemma pushSettled_Inr [simp]: "pushSettled (Inr v) = v"
  by (simp add: pushSettled_def)


lemma take_slice: "take i xs @ slice xs i (i + n) = take (i + n) xs"
  by (simp add: slice_def take_add)





section \<open>Cache writes and the folder call\<close>

lemma checkCache_eq:
  "checkCache files folderName width height purgeCache [] [] s =
     (Inr (cacheHits s folderName width height purgeCache files,
           cacheMisses s folderName width height purgeCache files),
      afterLookup s folderName width height purgeCache files)"
  by (cases purgeCache)
     (simp_all add: checkCache_purge checkCache_lookup cacheHits_def cacheMisses_def
        afterLookup_def)

lemma afterLookup_fields [simp]:
  "clock (afterLookup s folderName width height purgeCache files) = clock s"
  "requests (afterLookup s folderName width height purgeCache files) = requests s"
  by (simp_all add: afterLookup_def)

lemma store_afterLookup:
  "live s k \<Longrightarrow> store (afterLookup s folderName width height purgeCache files) k = store s k"
  by (simp add: afterLookup_def store_foldl_dropExpired)

lemma store_afterLookup_purge [simp]:
  "store (afterLookup s folderName width height True files) = store s"
  by (simp add: afterLookup_def)


lemma cacheWrite_None:
  "resizedWithUrl res = None \<Longrightarrow> cacheWrite folderName width height now m res = m"
  by (simp add: cacheWrite_def)

lemma cacheWrite_Some:
  "resizedWithUrl res = Some url \<Longrightarrow> rfile res = Some f
     \<Longrightarrow> cacheWrite folderName width height now m res
           = m(keyOf folderName width height f \<mapsto> (now + stdTTL * 1000, entryOf res url now))"
  by (simp add: cacheWrite_def)


lemma cacheResults_eq:
  "list_all (\<lambda>res. rfile res \<noteq> None) results
     \<Longrightarrow> cacheResults results folderName width height acc s =
           (Inr (acc @ results),
            s\<lparr>store := foldl (cacheWrite folderName width height (clock s)) (store s) results\<rparr>)"
proof (induction results arbitrary: acc s)
  case Nil
  show ?case by simp
next
  case (Cons res rest)
  then obtain f where f: "rfile res = Some f" by auto
  from Cons.prems have rest: "list_all (\<lambda>res. rfile res \<noteq> None) rest" by simp
  let ?w = "cacheWrite folderName width height (clock s) (store s) res"
  show ?case
  proof (cases "resizedWithUrl res")
    case None
    then show ?thesis
      by (simp add: Cons.IH [OF rest] cacheWrite_None)
  next
    case (Some url)
    have set: "cache_set (generateCacheKey folderName width height (fileUrl f))
                 (entryOf res url (clock s)) s = s\<lparr>store := ?w\<rparr>"
      by (simp add: cache_set_def cacheWrite_Some [OF Some f] keyOf_def)
    have "cacheResults (res # rest) folderName width height acc s
            = cacheResults rest folderName width height (acc @ [res]) (s\<lparr>store := ?w\<rparr>)"
      using Some f set by (simp add: Let_def)
    also have "\<dots> = (Inr ((acc @ [res]) @ rest),
                      s\<lparr>store := ?w\<rparr>\<lparr>store :=
                         foldl (cacheWrite folderName width height (clock (s\<lparr>store := ?w\<rparr>)))
                           (store (s\<lparr>store := ?w\<rparr>)) rest\<rparr>)"
      by (rule Cons.IH [OF rest])
    finally show ?thesis by simp
  qed
qed




lemma processBatches_Nil:
  "processBatches ev opts [] folderName width height bg s = ([], s)"
  by (simp add: processBatches_def batchLoop.simps)



section \<open>The folder call, the cache round trip and purge\<close>

lemma rfile_hitOf [simp]: "rfile (hitOf s folderName width height f) = Some f"
  by (simp add: hitOf_def cachedResult_def failedResult_def split: option.split)


lemma live_iff: "live s key \<longleftrightarrow> (\<exists>t v. store s key = Some (t, v) \<and> clock s \<le> t)"
  by (auto simp add: live_def split: option.splits)

lemma cacheHits_rfile:
  "map rfile (cacheHits s folderName width height purgeCache files)
     = map Some (filter (\<lambda>f. \<not> purgeCache \<and> live s (keyOf folderName width height f)) files)"
  by (simp add: cacheHits_def comp_def)

lemma cacheMisses_filter:
  "cacheMisses s folderName width height purgeCache files
     = filter (\<lambda>f. \<not> (\<not> purgeCache \<and> live s (keyOf folderName width height f))) files"
  by (simp add: cacheMisses_def)

lemma mset_partition_Some:
  "mset (map Some (filter P fs)) + mset (map Some (filter (\<lambda>f. \<not> P f) fs)) = mset (map Some fs)"
  by (induction fs) simp_all

lemma length_outcomes [simp]:
  "length (outcomes ev files width height bg k) = length files"
  by (induction files arbitrary: k) simp_all

lemma rfile_outcomeOf [simp]: "rfile (outcomeOf ev f width height bg k) = Some f"
  by (auto simp add: outcomeOf_def unsupportedResult_def failedResult_def
      dest: processDownloaded_shape split: sum.split)

lemma rfile_outcomes: "map rfile (outcomes ev files width height bg k) = map Some files"
  by (induction files arbitrary: k) simp_all

lemma outcomeOf_shape:
  "freshlyResized (outcomeOf ev f width height bg k) \<or> absorbed (outcomeOf ev f width height bg k)
     \<or> skipped (outcomeOf ev f width height bg k)"
  by (auto simp add: outcomeOf_def unsupportedResult_def failedResult_def absorbed_def skipped_def
      dest: processDownloaded_shape split: sum.split)

lemma outcomes_shape:
  "list_all (\<lambda>res. freshlyResized res \<or> absorbed res \<or> skipped res)
     (outcomes ev files width height bg k)"
  by (induction files arbitrary: k) (simp_all add: outcomeOf_shape)

lemma outcomes_append:
  "outcomes ev (xs @ ys) width height bg k
     = outcomes ev xs width height bg k
         @ outcomes ev ys width height bg (k + length (supportedUrls xs))"
  by (induction xs arbitrary: k) simp_all

text \<open>One image: the result of \<open>processSingleImage\<close> is the outcome of the file's own download.\<close>

lemma processSingleImage_outcome:
  "\<exists>s1. processSingleImage ev f folderName width height bg s
           = (Inr (outcomeOf ev f width height bg (length (requests s))), s1)
     \<and> requests s1 = requests s @ supportedUrls [f]"
  by (cases "isSupportedFormat (fileUrl f)")
     (simp_all add: processSingleImage_supported processSingleImage_unsupported outcomeOf_def)

lemma runBatch_outcomes:
  "\<exists>outs s1. runBatch ev fs folderName width height bg s = (outs, s1)
     \<and> map pushSettled outs = outcomes ev fs width height bg (length (requests s))
     \<and> requests s1 = requests s @ supportedUrls fs"
proof (induction fs arbitrary: s)
  case Nil
  show ?case by simp
next
  case (Cons f fs)
  obtain s1 where one:
    "processSingleImage ev f folderName width height bg s
       = (Inr (outcomeOf ev f width height bg (length (requests s))), s1)"
    "requests s1 = requests s @ supportedUrls [f]"
    using processSingleImage_outcome [of ev f folderName width height bg s] by blast
  obtain outs s2 where rest:
    "runBatch ev fs folderName width height bg s1 = (outs, s2)"
    "map pushSettled outs = outcomes ev fs width height bg (length (requests s1))"
    "requests s2 = requests s1 @ supportedUrls fs"
    using Cons.IH [of s1] by blast
  from one rest show ?case
    by (simp add: processSingleImageWithRetry_is_processSingleImage)
qed

lemma batchLoop_outcomes:
  "results = outcomes ev (take i files) width height bg k
     \<Longrightarrow> length (requests s) = k + length (supportedUrls (take i files))
     \<Longrightarrow> fst (batchLoop ev opts files folderName width height bg i results s)
           = outcomes ev files width height bg k"
proof (induction ev opts files folderName width height bg i results s rule: batchLoop.induct)
  case (1 ev opts files folderName width height bg i results s)
  show ?case
  proof (cases "i < length files")
    case False
    with "1.prems" show ?thesis
      by (subst batchLoop.simps) simp
  next
    case True
    let ?n = "batchSize opts"
    let ?batch = "slice files i (i + ?n)"
    obtain outs s1 where batch:
      "runBatch ev ?batch folderName width height bg s = (outs, s1)"
      "map pushSettled outs = outcomes ev ?batch width height bg (length (requests s))"
      "requests s1 = requests s @ supportedUrls ?batch"
      using runBatch_outcomes [of ev ?batch folderName width height bg s] by blast
    let ?s2 = "if i + ?n < length files then sleep 10 s1 else s1"
    have s2: "requests ?s2 = requests s1"
      by (simp add: sleep_def)
    have split: "take (i + ?n) files = take i files @ ?batch"
      by (simp add: take_slice)
    have res: "results @ map pushSettled outs = outcomes ev (take (i + ?n) files) width height bg k"
      using "1.prems" batch(2) by (simp only: split outcomes_append)
    have len: "length (requests ?s2) = k + length (supportedUrls (take (i + ?n) files))"
      using "1.prems"(2) batch(3) s2 by (simp only: split supportedUrls_simps) simp
    have "fst (batchLoop ev opts files folderName width height bg (i + ?n)
                 (results @ map pushSettled outs) ?s2)
            = outcomes ev files width height bg k"
      using "1.IH" [OF True refl batch(1) [symmetric] refl refl refl res len] .
    moreover have "batchLoop ev opts files folderName width height bg i results s
            = batchLoop ev opts files folderName width height bg (i + ?n)
                (results @ map pushSettled outs) ?s2"
      using True batch(1) by (subst batchLoop.simps) (simp add: Let_def)
    ultimately show ?thesis by simp
  qed
qed

lemma processBatches_outcomes:
  "fst (processBatches ev opts files folderName width height bg s)
     = outcomes ev files width height bg (length (requests s))"
  using batchLoop_outcomes [of "[]" ev 0 files width height bg "length (requests s)" s opts folderName]
  by (simp add: processBatches_def)

lemma list_all_rfile_outcomes:
  "list_all (\<lambda>res. rfile res \<noteq> None) (outcomes ev files width height bg k)"
  by (induction files arbitrary: k) simp_all

text \<open>
  The folder call after its lookups: the hits, then the outcomes of the files that were
  not answered from the cache.
\<close>

lemma afterCheck_outcomes:
  assumes "length (requests s1) = k"
  shows "fst (if length misses = 0 then (Inr hits, s1)
              else (let (results, s2) =
                          processBatches ev opts misses folderName width height bg s1
                    in cacheResults results folderName width height hits s2))
           = Inr (hits @ outcomes ev misses width height bg k)"
proof (cases "misses = []")
  case True
  then show ?thesis by simp
next
  case False
  obtain rs s2 where batches:
    "processBatches ev opts misses folderName width height bg s1 = (rs, s2)"
    by (cases "processBatches ev opts misses folderName width height bg s1")
  with processBatches_outcomes [of ev opts misses folderName width height bg s1] assms
  have rs: "rs = outcomes ev misses width height bg k" by simp
  have "cacheResults rs folderName width height hits s2
          = (Inr (hits @ rs),
             s2\<lparr>store := foldl (cacheWrite folderName width height (clock s2)) (store s2) rs\<rparr>)"
    unfolding rs by (rule cacheResults_eq) (rule list_all_rfile_outcomes)
  with False batches rs show ?thesis by simp
qed

lemma processFolderImages_outcomes:
  "fst (processFolderImages ev opts files folderName width height purgeCache bg s)
     = Inr (cacheHits s folderName width height purgeCache files
            @ outcomes ev (cacheMisses s folderName width height purgeCache files) width height
                (case bg of None \<Rightarrow> Some ''#ffffff'' | Some c \<Rightarrow> Some c) (length (requests s)))"
  using afterCheck_outcomes
    [of "afterLookup s folderName width height purgeCache files" "length (requests s)"
        "cacheMisses s folderName width height purgeCache files"
        "cacheHits s folderName width height purgeCache files" ev opts folderName width height
        "case bg of None \<Rightarrow> Some ''#ffffff'' | Some c \<Rightarrow> Some c"]
  by (simp add: processFolderImages_def checkCache_eq)

subsection \<open>Lookups under a moving clock\<close>

lemma tickClock_fields [simp]:
  "store (tickClock ms s) = store s"
  "clock (tickClock ms s) = clock s + ms"
  "requests (tickClock ms s) = requests s"
  "sleeps (tickClock ms s) = sleeps s"
  by (simp_all add: tickClock_def)

lemma tickClock_0 [simp]: "tickClock 0 s = s"
  by (simp add: tickClock_def)

lemma hitOf_tickClock [simp]:
  "hitOf (tickClock ms s) folderName width height f = hitOf s folderName width height f"
  by (simp add: hitOf_def)

lemma nextTick_le: "nextTick ticks \<le> sum_list ticks"
  by (cases ticks) (simp_all add: nextTick_def)

lemma sum_list_tl: "sum_list (tl ticks) = sum_list ticks - nextTick ticks"
  by (cases ticks) (simp_all add: nextTick_def)

lemma noExpiryWithin_iff:
  "noExpiryWithin s ms keys \<longleftrightarrow>
     (\<forall>key \<in> set keys. \<forall>t v. store s key = Some (t, v) \<longrightarrow> t < clock s \<or> clock s + ms \<le> t)"
  by (auto simp add: noExpiryWithin_def list_all_iff split: option.splits)

lemma live_tickClock:
  "noExpiryWithin s n keys \<Longrightarrow> key \<in> set keys \<Longrightarrow> ms \<le> n
     \<Longrightarrow> live (tickClock ms s) key = live s key"
  by (fastforce simp add: noExpiryWithin_iff live_iff)

lemma noExpiryWithin_tickClock:
  "noExpiryWithin s n keys \<Longrightarrow> ms \<le> n \<Longrightarrow> noExpiryWithin (tickClock ms s) (n - ms) keys"
  by (fastforce simp add: noExpiryWithin_iff)

lemma noExpiryWithin_dropExpired:
  "noExpiryWithin s n keys \<Longrightarrow> noExpiryWithin (dropExpired s key) n keys"
  by (auto simp add: noExpiryWithin_iff dropExpired_def)

lemma noExpiryWithin_Cons:
  "noExpiryWithin s n (key # keys) \<Longrightarrow> noExpiryWithin s n keys"
  by (simp add: noExpiryWithin_def)

lemma checkCacheAt_purge:
  "checkCacheAt ticks files folderName width height True acc todo s = (Inr (acc, todo @ files), s)"
  by (induction files arbitrary: todo) simp_all

lemma checkCacheAt_lookup:
  "noExpiryWithin s (sum_list ticks) (map (keyOf folderName width height) files)
     \<Longrightarrow> \<exists>s'. checkCacheAt ticks files folderName width height False acc todo s =
           (Inr (acc @ map (hitOf s folderName width height)
                         (filter (\<lambda>f. live s (keyOf folderName width height f)) files),
                 todo @ filter (\<lambda>f. \<not> live s (keyOf folderName width height f)) files), s')
         \<and> requests s' = requests s"
proof (induction files arbitrary: ticks acc todo s)
  case Nil
  show ?case by simp
next
  case (Cons f fs)
  let ?K = "keyOf folderName width height"
  let ?n = "sum_list ticks"
  let ?d = "nextTick ticks"
  let ?s1 = "tickClock ?d s"
  have all: "noExpiryWithin s ?n (map ?K (f # fs))"
    using Cons.prems .
  have d: "?d \<le> ?n"
    by (rule nextTick_le)
  have s1: "noExpiryWithin ?s1 (sum_list (tl ticks)) (map ?K (f # fs))"
    using noExpiryWithin_tickClock [OF all d] by (simp add: sum_list_tl)
  have live1: "live ?s1 (?K g) = live s (?K g)" if "g \<in> set (f # fs)" for g
    using live_tickClock [OF all _ d, of "?K g"] that by auto
  show ?case
  proof (cases "live s (?K f)")
    case True
    then obtain t v where tv: "store s (?K f) = Some (t, v)"
      by (auto simp add: live_iff)
    let ?e = "nextTick (tl ticks)"
    let ?s2 = "tickClock ?e ?s1"
    have e: "?e \<le> sum_list (tl ticks)"
      by (rule nextTick_le)
    have s2: "noExpiryWithin ?s2 (sum_list (tl (tl ticks))) (map ?K fs)"
      using noExpiryWithin_tickClock [OF s1 e] by (simp add: sum_list_tl noExpiryWithin_def)
    have live2: "live ?s2 (?K g) = live s (?K g)" if "g \<in> set (f # fs)" for g
      using live_tickClock [OF s1 _ e, of "?K g"] live1 [OF that] that by auto
    obtain s' where rest:
      "checkCacheAt (tl (tl ticks)) fs folderName width height False
         (acc @ [cachedResult f v]) todo ?s2 =
           (Inr ((acc @ [cachedResult f v]) @ map (hitOf ?s2 folderName width height)
                         (filter (\<lambda>f. live ?s2 (?K f)) fs),
                 todo @ filter (\<lambda>f. \<not> live ?s2 (?K f)) fs), s')"
      "requests s' = requests ?s2"
      using Cons.IH [OF s2] by blast
    have same: "filter (\<lambda>f. live ?s2 (?K f)) fs = filter (\<lambda>f. live s (?K f)) fs"
      "filter (\<lambda>f. \<not> live ?s2 (?K f)) fs = filter (\<lambda>f. \<not> live s (?K f)) fs"
      using live2 by (auto intro: filter_cong)
    have l1: "live ?s1 (?K f)" using live1 [of f] True by simp
    have l2: "live ?s2 (?K f)" using live2 [of f] True by simp
    have has: "cache_has (?K f) ?s1 = (True, ?s1)"
      using l1 by (simp add: cache_has_eq)
    have get: "cache_get (?K f) ?s2 = (Some v, ?s2)"
      using l2 tv by (simp add: cache_get_eq)
    have "checkCacheAt ticks (f # fs) folderName width height False acc todo s
            = checkCacheAt (tl (tl ticks)) fs folderName width height False
                (acc @ [cachedResult f v]) todo ?s2"
      using has get by (simp add: keyOf_def [symmetric])
    with rest same True tv show ?thesis
      by (simp add: hitOf_def)
  next
    case False
    let ?s2 = "dropExpired ?s1 (?K f)"
    have l1: "\<not> live ?s1 (?K f)" using live1 [of f] False by simp
    have s2: "noExpiryWithin ?s2 (sum_list (tl ticks)) (map ?K fs)"
      using noExpiryWithin_dropExpired [OF s1] by (simp add: noExpiryWithin_def)
    obtain s' where rest:
      "checkCacheAt (tl ticks) fs folderName width height False acc (todo @ [f]) ?s2 =
           (Inr (acc @ map (hitOf ?s2 folderName width height)
                         (filter (\<lambda>f. live ?s2 (?K f)) fs),
                 (todo @ [f]) @ filter (\<lambda>f. \<not> live ?s2 (?K f)) fs), s')"
      "requests s' = requests ?s2"
      using Cons.IH [OF s2] by blast
    have same: "filter (\<lambda>f. live ?s1 (?K f)) fs = filter (\<lambda>f. live s (?K f)) fs"
      "filter (\<lambda>f. \<not> live ?s1 (?K f)) fs = filter (\<lambda>f. \<not> live s (?K f)) fs"
      using live1 by (auto intro: filter_cong)
    have hits: "map (hitOf ?s2 folderName width height) (filter (\<lambda>f. live s (?K f)) fs)
                  = map (hitOf s folderName width height) (filter (\<lambda>f. live s (?K f)) fs)"
    proof (rule map_cong [OF refl])
      fix g assume "g \<in> set (filter (\<lambda>f. live s (?K f)) fs)"
      then have "live ?s1 (?K g)" using live1 [of g] by simp
      then show "hitOf ?s2 folderName width height g = hitOf s folderName width height g"
        by (simp add: hitOf_dropExpired)
    qed
    have has: "cache_has (?K f) ?s1 = (False, ?s2)"
      using l1 by (simp add: cache_has_eq)
    have "checkCacheAt ticks (f # fs) folderName width height False acc todo s
            = checkCacheAt (tl ticks) fs folderName width height False acc (todo @ [f]) ?s2"
      using has by (simp add: keyOf_def [symmetric])
    with rest False show ?thesis
      by (simp add: same hits)
  qed
qed

lemma checkCacheAt_eq:
  "noExpiryWithin s (sum_list ticks) (map (keyOf folderName width height) files)
     \<Longrightarrow> \<exists>s'. checkCacheAt ticks files folderName width height purgeCache [] [] s =
           (Inr (cacheHits s folderName width height purgeCache files,
                 cacheMisses s folderName width height purgeCache files), s')
         \<and> requests s' = requests s"
  using checkCacheAt_lookup [of s ticks folderName width height files "[]" "[]"]
  by (cases purgeCache) (simp_all add: checkCacheAt_purge cacheHits_def cacheMisses_def)

lemma processFolderImagesAt_outcomes:
  assumes "noExpiryWithin s (sum_list ticks) (map (keyOf folderName width height) files)"
  shows "fst (processFolderImagesAt ticks ev opts files folderName width height purgeCache bg s)
     = Inr (cacheHits s folderName width height purgeCache files
            @ outcomes ev (cacheMisses s folderName width height purgeCache files) width height
                (case bg of None \<Rightarrow> Some ''#ffffff'' | Some c \<Rightarrow> Some c) (length (requests s)))"
proof -
  obtain s' where check:
    "checkCacheAt ticks files folderName width height purgeCache [] [] s =
       (Inr (cacheHits s folderName width height purgeCache files,
             cacheMisses s folderName width height purgeCache files), s')"
    "requests s' = requests s"
    using checkCacheAt_eq [OF assms] by blast
  from check(2) have "length (requests s') = length (requests s)" by simp
  from afterCheck_outcomes [OF this,
        of "cacheMisses s folderName width height purgeCache files"
           "cacheHits s folderName width height purgeCache files" ev opts folderName width height
           "case bg of None \<Rightarrow> Some ''#ffffff'' | Some c \<Rightarrow> Some c"]
  show ?thesis
    by (simp add: processFolderImagesAt_def check(1))
qed

text \<open>With no time passing between the readings, the variant is \<open>processFolderImages\<close>.\<close>

lemma checkCacheAt_Nil_lookup:
  "checkCacheAt [] files folderName width height False acc todo s
     = checkCache files folderName width height False acc todo s"
proof (induction files arbitrary: acc todo s)
  case Nil
  show ?case by simp
next
  case (Cons f fs)
  let ?k = "generateCacheKey folderName width height (fileUrl f)"
  show ?case
  proof (cases "live s ?k")
    case True
    then obtain t v where "store s ?k = Some (t, v)"
      by (auto simp add: live_iff)
    with True show ?thesis
      by (simp add: Cons.IH cache_has_eq cache_get_eq nextTick_def)
  next
    case False
    then show ?thesis
      by (simp add: Cons.IH cache_has_eq nextTick_def)
  qed
qed

lemma checkCacheAt_Nil:
  "checkCacheAt [] files folderName width height purgeCache acc todo s
     = checkCache files folderName width height purgeCache acc todo s"
  by (cases purgeCache) (simp_all add: checkCacheAt_purge checkCache_purge checkCacheAt_Nil_lookup)

lemma processFolderImagesAt_Nil:
  "processFolderImagesAt [] ev opts files folderName width height purgeCache bg s
     = processFolderImages ev opts files folderName width height purgeCache bg s"
  by (simp add: processFolderImagesAt_def processFolderImages_def checkCacheAt_Nil)

lemma cacheHits_cached:
  "list_all (\<lambda>res. isResized res \<and> isCached res = Some True)
     (cacheHits s folderName width height purgeCache files)"
  by (auto simp add: cacheHits_def list_all_iff live_iff hitOf_def cachedResult_def)

lemma mset_rfile_results:
  "mset (map rfile (cacheHits s folderName width height purgeCache files
                     @ outcomes ev (cacheMisses s folderName width height purgeCache files)
                         width height bg k))
     = mset (map Some files)"
  using mset_partition_Some [of "\<lambda>f. \<not> purgeCache \<and> live s (keyOf folderName width height f)" files]
  by (simp add: cacheHits_rfile rfile_outcomes cacheMisses_filter)

lemma length_results:
  "length (cacheHits s folderName width height purgeCache files
            @ outcomes ev (cacheMisses s folderName width height purgeCache files)
                width height bg k)
     = length files"
proof -
  have "size (mset (map rfile (cacheHits s folderName width height purgeCache files
                     @ outcomes ev (cacheMisses s folderName width height purgeCache files)
                         width height bg k)))
          = size (mset (map Some files))"
    by (simp only: mset_rfile_results)
  then show ?thesis by simp
qed


text \<open>
  Claim C1, amended. For every list of files, \<open>processFolderImages\<close> returns and does
  not raise, with exactly one result per input file, and so does \<open>processBatches\<close> within
  it; this also holds when the clock moves during the lookups, as long as none of the
  entries looked up expires while they last. The results are the files with a live entry,
  answered from the cache, followed by every other file with the outcome of its own
  download and transcode, whatever happens to the files around it (for \<open>processBatches\<close>:
  every file with its outcome, in the order of the input). An error raised in the
  \<open>try\<close> block of an item is absorbed into the item's result, which carries the file,
  \<open>isResized: false\<close>, \<open>resizedUrl: null\<close> and the message of the error under \<open>error\<close>;
  a file whose extension is not supported is answered with \<open>isResized: false\<close>,
  \<open>resizedUrl: null\<close> and \<open>message: 'Unsupported format'\<close>, without a field \<open>error\<close>;
  every other item is freshly resized.
\<close>

theorem processFolderImages_one_result_per_file:
  "(noExpiryWithin s (sum_list ticks) (map (keyOf folderName width height) files) \<longrightarrow>
      fst (processFolderImagesAt ticks ev opts files folderName width height purgeCache bg s)
        = Inr (folderResults ev s files folderName width height purgeCache bg))
   \<and> fst (processFolderImages ev opts files folderName width height purgeCache bg s)
       = Inr (folderResults ev s files folderName width height purgeCache bg)
   \<and> length (folderResults ev s files folderName width height purgeCache bg) = length files
   \<and> mset (map rfile (folderResults ev s files folderName width height purgeCache bg))
       = mset (map Some files)
   \<and> list_all (\<lambda>res. isResized res \<and> isCached res = Some True)
        (cacheHits s folderName width height purgeCache files)
   \<and> fst (processBatches ev opts files folderName width height bg s)
       = outcomes ev files width height bg (length (requests s))
   \<and> length (outcomes ev files width height bg k) = length files
   \<and> map rfile (outcomes ev files width height bg k) = map Some files
   \<and> (\<not> isSupportedFormat (fileUrl u) \<longrightarrow>
        outcomeOf ev u width height bg k = unsupportedResult u
        \<and> skipped (unsupportedResult u))
   \<and> (isSupportedFormat (fileUrl f)
        \<and> processDownloaded ev f width height bg (snd (net ev k (fileUrl f))) = Inl e \<longrightarrow>
        outcomeOf ev f width height bg k = failedResult (Some f) (err_message e)
        \<and> absorbed (failedResult (Some f) (err_message e))
        \<and> error (failedResult (Some f) (err_message e)) = Some (err_message e))
   \<and> (isSupportedFormat (fileUrl g)
        \<and> processDownloaded ev g width height bg (snd (net ev k (fileUrl g))) = Inr res \<longrightarrow>
        outcomeOf ev g width height bg k = res \<and> freshlyResized res \<and> rfile res = Some g)"
proof (intro conjI)
  show "noExpiryWithin s (sum_list ticks) (map (keyOf folderName width height) files) \<longrightarrow>
      fst (processFolderImagesAt ticks ev opts files folderName width height purgeCache bg s)
        = Inr (folderResults ev s files folderName width height purgeCache bg)"
    by (simp add: processFolderImagesAt_outcomes folderResults_def)
  show "fst (processFolderImages ev opts files folderName width height purgeCache bg s)
       = Inr (folderResults ev s files folderName width height purgeCache bg)"
    by (simp add: processFolderImages_outcomes folderResults_def)
  show "length (folderResults ev s files folderName width height purgeCache bg) = length files"
    unfolding folderResults_def by (rule length_results)
  show "mset (map rfile (folderResults ev s files folderName width height purgeCache bg))
       = mset (map Some files)"
    unfolding folderResults_def by (rule mset_rfile_results)
  show "list_all (\<lambda>res. isResized res \<and> isCached res = Some True)
          (cacheHits s folderName width height purgeCache files)"
    by (rule cacheHits_cached)
  show "fst (processBatches ev opts files folderName width height bg s)
       = outcomes ev files width height bg (length (requests s))"
    by (rule processBatches_outcomes)
  show "length (outcomes ev files width height bg k) = length files"
    by simp
  show "map rfile (outcomes ev files width height bg k) = map Some files"
    by (rule rfile_outcomes)
  show "\<not> isSupportedFormat (fileUrl u) \<longrightarrow>
        outcomeOf ev u width height bg k = unsupportedResult u
        \<and> skipped (unsupportedResult u)"
    by (simp add: outcomeOf_def unsupportedResult_def skipped_def)
  show "isSupportedFormat (fileUrl f)
        \<and> processDownloaded ev f width height bg (snd (net ev k (fileUrl f))) = Inl e \<longrightarrow>
        outcomeOf ev f width height bg k = failedResult (Some f) (err_message e)
        \<and> absorbed (failedResult (Some f) (err_message e))
        \<and> error (failedResult (Some f) (err_message e)) = Some (err_message e)"
    by (simp add: outcomeOf_def failedResult_def absorbed_def)
  show "isSupportedFormat (fileUrl g)
        \<and> processDownloaded ev g width height bg (snd (net ev k (fileUrl g))) = Inr res \<longrightarrow>
        outcomeOf ev g width height bg k = res \<and> freshlyResized res \<and> rfile res = Some g"
    using processDownloaded_shape [of ev g width height bg "snd (net ev k (fileUrl g))" res]
    by (simp add: outcomeOf_def)
qed





















section \<open>The scenario of the spec, evaluated\<close>

text \<open>
  The folder \<open>demo\<close> holds \<open>a.png\<close> and \<open>b.jpg\<close>; the request is for width 100. In the
  environment \<open>flakyEnv\<close> the first file is resized and the download of the second
  times out.
\<close>

lemma supported_b_jpg: "isSupportedFormat ''https://x/b.jpg''"
  by (simp add: isSupportedFormat_def toLowerCase_def toLowerCaseChar_def substringFrom_def
      supportedFormats_def)

lemma format_a_png: "determineOutputFormat ''https://x/a.png'' False = ''jpeg''"
  by (simp add: determineOutputFormat_def originalFormat_def toLowerCase_def toLowerCaseChar_def
      substringFrom_def)




lemma hashLoop_b: "hashLoop ''https://x/b.jpg'' = 997203730"
  by (simp add: hashLoop_def hashStep_def)

lemma key_A: "keyOf ''demo'' (Some 100) None fileA = ''resize_demo_100xnull_gjpt1x''"
  by (simp add: keyOf_def fileA_def generateCacheKey_def hashString_def hashLoop_a
      dimensionToString_def numberToString_def natToString.simps digitChar_def)

lemma key_B: "keyOf ''demo'' (Some 100) None fileB = ''resize_demo_100xnull_ghpjbm''"
  by (simp add: keyOf_def fileB_def generateCacheKey_def hashString_def hashLoop_b
      dimensionToString_def numberToString_def natToString.simps digitChar_def)







lemma hashLoop_notes: "hashLoop ''https://x/notes.txt'' = 3057480790"
  by (simp add: hashLoop_def hashStep_def)

lemma key_C: "keyOf ''demo'' (Some 100) None fileC = ''resize_demo_100xnull_1ekcf9y''"
  by (simp add: keyOf_def fileC_def generateCacheKey_def hashString_def hashLoop_notes
      dimensionToString_def numberToString_def natToString.simps digitChar_def)

lemma unsupported_notes_txt: "\<not> isSupportedFormat ''https://x/notes.txt''"
  by (simp add: isSupportedFormat_def toLowerCase_def toLowerCaseChar_def substringFrom_def
      supportedFormats_def)

lemma download_fileA:
  "processDownloaded flakyEnv fileA width height bg (snd (net flakyEnv k (fileUrl fileA)))
     = Inr resizedA"
  by (simp add: fileA_def flakyEnv_def processDownloaded_def hasTransparency_def format_a_png
      resizeImage_def toLowerCase_def toLowerCaseChar_def resizedResult_def resizedA_def
      getMimeTypeForFormat_def dataUrlA_def)

lemma outcomeOf_fileA: "outcomeOf flakyEnv fileA width height bg k = resizedA"
  using supported_a_png by (simp add: outcomeOf_def download_fileA) (simp add: fileA_def)

lemma download_fileB:
  "processDownloaded flakyEnv fileB width height bg (snd (net flakyEnv k (fileUrl fileB)))
     = Inl (Error ''Timeout'')"
  by (simp add: fileB_def flakyEnv_def processDownloaded_def)

lemma outcomeOf_fileB:
  "outcomeOf flakyEnv fileB width height bg k = failedResult (Some fileB) ''Timeout''"
  using supported_b_jpg by (simp add: outcomeOf_def download_fileB) (simp add: fileB_def)

lemma outcomeOf_fileC: "outcomeOf ev fileC width height bg k = unsupportedResult fileC"
  using unsupported_notes_txt by (simp add: outcomeOf_def fileC_def)

lemma supported_ABC:
  "isSupportedFormat (fileUrl fileA)" "isSupportedFormat (fileUrl fileB)"
  "\<not> isSupportedFormat (fileUrl fileC)"
  using supported_a_png supported_b_jpg unsupported_notes_txt
  by (simp_all add: fileA_def fileB_def fileC_def)

lemma outcomes_BAC:
  "outcomes flakyEnv [fileB, fileA, fileC] width height bg k
     = [failedResult (Some fileB) ''Timeout'', resizedA, unsupportedResult fileC]"
  by (simp add: outcomeOf_fileA outcomeOf_fileB outcomeOf_fileC supported_ABC)

lemma not_live_expired:
  "\<not> live expired (keyOf ''demo'' (Some 100) None fileA)"
  "\<not> live expired (keyOf ''demo'' (Some 100) None fileB)"
  "\<not> live expired (keyOf ''demo'' (Some 100) None fileC)"
  by (simp_all add: live_def expired_def afterFolder_def key_A key_B key_C)

lemma folderResults_BAC:
  "folderResults flakyEnv expired [fileB, fileA, fileC] ''demo'' (Some 100) None False None
     = [failedResult (Some fileB) ''Timeout'', resizedA, unsupportedResult fileC]"
  by (simp add: folderResults_def cacheHits_def cacheMisses_def not_live_expired
      outcomeOf_fileA outcomeOf_fileB outcomeOf_fileC supported_ABC)

text \<open>
  Claim C1 on the scenario, with a third file that is not an image and the failing file
  first. The cache holds the entry of \<open>a.png\<close>, which expired a millisecond ago; 3, 4 and
  5 milliseconds pass before the three lookups. There are three files and three results:
  the time-out of \<open>b.jpg\<close> is absorbed with its message, \<open>a.png\<close> after it is resized, and
  \<open>notes.txt\<close> is skipped.
\<close>

theorem processFolderImages_mixed_folder_witness:
  "noExpiryWithin expired (sum_list [3, 4, 5])
     (map (keyOf ''demo'' (Some 100) None) [fileB, fileA, fileC])
   \<and> fst (processFolderImagesAt [3, 4, 5] flakyEnv defaultOptions [fileB, fileA, fileC] ''demo''
            (Some 100) None False None expired)
       = Inr [failedResult (Some fileB) ''Timeout'', resizedA, unsupportedResult fileC]
   \<and> fst (processFolderImages flakyEnv defaultOptions [fileB, fileA, fileC] ''demo'' (Some 100)
            None False None expired)
       = Inr [failedResult (Some fileB) ''Timeout'', resizedA, unsupportedResult fileC]
   \<and> fst (processBatches flakyEnv defaultOptions [fileB, fileA, fileC] ''demo'' (Some 100) None
            None expired)
       = [failedResult (Some fileB) ''Timeout'', resizedA, unsupportedResult fileC]
   \<and> \<not> isSupportedFormat (fileUrl fileC)
   \<and> skipped (unsupportedResult fileC)
   \<and> isSupportedFormat (fileUrl fileB)
   \<and> processDownloaded flakyEnv fileB (Some 100) None None
        (snd (net flakyEnv 2 (fileUrl fileB))) = Inl (Error ''Timeout'')
   \<and> absorbed (failedResult (Some fileB) ''Timeout'')
   \<and> error (failedResult (Some fileB) ''Timeout'') = Some ''Timeout''
   \<and> isSupportedFormat (fileUrl fileA)
   \<and> processDownloaded flakyEnv fileA (Some 100) None None
        (snd (net flakyEnv 2 (fileUrl fileA))) = Inr resizedA
   \<and> freshlyResized resizedA"
proof -
  have quiet: "noExpiryWithin expired (sum_list [3, 4, 5])
                 (map (keyOf ''demo'' (Some 100) None) [fileB, fileA, fileC])"
    by (simp add: noExpiryWithin_def expired_def afterFolder_def key_A key_B key_C)
  note processFolderImages_one_result_per_file
    [where s = expired and ticks = "[3, 4, 5]" and folderName = "''demo''" and width = "Some 100"
       and height = None and files = "[fileB, fileA, fileC]" and ev = flakyEnv
       and opts = defaultOptions and purgeCache = False and bg = None and k = 2
       and u = fileC and f = fileB and e = "Error ''Timeout''" and g = fileA and res = resizedA]
  with quiet supported_ABC download_fileB [of "Some 100" None None 2]
    download_fileA [of "Some 100" None None 2]
  show ?thesis
    by (simp add: folderResults_BAC outcomeOf_fileA outcomeOf_fileB outcomeOf_fileC)
qed

text \<open>
  Claim C1, as the spec words it, fails on a file that is not an image: the item is not
  resized, and its result has the note \<open>Unsupported format\<close> under \<open>message\<close> and no
  field \<open>error\<close>.
\<close>

theorem processFolderImages_unsupported_counterexample:
  "fst (processFolderImages flakyEnv defaultOptions [fileC] ''demo'' (Some 100) None False None
          freshWorld)
     = Inr [unsupportedResult fileC]
   \<and> \<not> isResized (unsupportedResult fileC)
   \<and> error (unsupportedResult fileC) = None
   \<and> message (unsupportedResult fileC) = Some ''Unsupported format''
   \<and> \<not> absorbed (unsupportedResult fileC)"
  by (simp add: processFolderImages_outcomes cacheHits_def cacheMisses_def live_def
      freshWorld_def outcomeOf_fileC unsupportedResult_def absorbed_def)

text \<open>
  What the proviso on the clock leaves out. At the last millisecond of the entry of
  \<open>a.png\<close>, \<open>has\<close> finds the entry; one millisecond later \<open>get\<close> does not, and the
  folder call raises the TypeError of reading \<open>dataUrl\<close> of \<open>undefined\<close>.
\<close>

lemma lookup_across_expiry_raises:
  "\<not> noExpiryWithin oneHourLater (sum_list [0, 1]) (map (keyOf ''demo'' (Some 100) None) [fileA])
   \<and> fst (processFolderImagesAt [0, 1] flakyEnv defaultOptions [fileA] ''demo'' (Some 100) None
            False None oneHourLater)
       = Inl (Error ''Cannot read properties of undefined (reading 'dataUrl')'')"
  by (simp add: noExpiryWithin_def processFolderImagesAt_def nextTick_def tickClock_def
      cache_has_def cache_get_def keyOf_def [symmetric] oneHourLater_def afterFolder_def)










end
